theory Spec2Isabelle
  imports Main "HOL-Library.Word"
begin

section \<open>Data model of the stt and tts packages\<close>

text \<open>
  Go's \<open>error\<close> interface is one type for the whole program. The sentinel errors declared
  by the two packages are constructors (prefixed by their package); any other error value a
  provider may return is \<open>ProviderError\<close> with its message.
\<close>

datatype error =
    Stt_ErrNoAvailableProvider
  | Stt_ErrStreamingNotSupported
  | Stt_ErrInvalidAudio
  | Stt_ErrInvalidConfig
  | Stt_ErrAudioTooLong
  | Stt_ErrAudioTooShort
  | Stt_ErrRateLimited
  | Stt_ErrQuotaExceeded
  | Stt_ErrUnsupportedLanguage
  | Stt_ErrUnsupportedFormat
  | Stt_ErrStreamClosed
  | Tts_ErrNoAvailableProvider
  | Tts_ErrVoiceNotFound
  | Tts_ErrInvalidConfig
  | Tts_ErrRateLimited
  | Tts_ErrQuotaExceeded
  | Tts_ErrStreamClosed
  | ProviderError string

text \<open>
  Providers are external collaborators and may be stateful (a stub that counts its calls, a
  vendor that fails once and then succeeds). Their state, and everything else outside the
  client, is a world \<open>'w\<close> that every provider call takes and returns.

  A \<open>context.Context\<close> is read through \<open>ctx.Err()\<close>: nil while the context is live, and
  \<open>Canceled\<close> or \<open>DeadlineExceeded\<close> afterwards. Whether it is done depends on the moment it
  is asked, so a context is a function of the world.
\<close>

datatype ctx_error = Canceled | DeadlineExceeded

type_synonym 'w Context = "'w \<Rightarrow> ctx_error option"

type_synonym byte = "8 word"

text \<open>
  A Go call returning \<open>(*T, error)\<close> yields a pair of a nullable result and a nullable
  error; \<open>None\<close> is nil.
\<close>

type_synonym ('w, 'r) outcome = "('r option \<times> error option) \<times> 'w"

text \<open>
  An stt provider: \<open>Name\<close>, \<open>Transcribe\<close>, and \<open>TranscribeStream\<close> when the value also
  satisfies \<open>StreamingProvider\<close> (the type assertion \<open>p.(StreamingProvider)\<close> succeeds
  exactly when the field is \<open>Some\<close>). \<open>TranscribeFile\<close> and \<open>TranscribeURL\<close> are never
  called by the client and are left out. The configuration \<open>'c\<close>, the result \<open>'r\<close>, the
  writer \<open>'wr\<close> and the event channel \<open>'ch\<close> are opaque to the client.
\<close>

record ('w, 'c, 'r, 'wr, 'ch) stt_Provider =
  stt_Name :: string
  stt_Transcribe :: "'w Context \<Rightarrow> byte list \<Rightarrow> 'c \<Rightarrow> 'w \<Rightarrow> ('w, 'r) outcome"
  stt_TranscribeStream ::
    "('w Context \<Rightarrow> 'c \<Rightarrow> 'w \<Rightarrow> ('wr option \<times> 'ch option \<times> error option) \<times> 'w) option"

text \<open>
  A tts provider: \<open>Name\<close>, \<open>Synthesize\<close> and \<open>SynthesizeStream\<close> belong to the base
  \<open>Provider\<close> interface; \<open>SynthesizeFromReader\<close> is present when the value also satisfies
  the package's \<open>StreamingProvider\<close> (the reader is modelled by the text it delivers).
  \<open>ListVoices\<close> and \<open>GetVoice\<close> are never called by the client and are left out.
\<close>

record ('w, 'c, 'r, 'ch) tts_Provider =
  tts_Name :: string
  tts_Synthesize :: "'w Context \<Rightarrow> string \<Rightarrow> 'c \<Rightarrow> 'w \<Rightarrow> ('w, 'r) outcome"
  tts_SynthesizeStream :: "'w Context \<Rightarrow> string \<Rightarrow> 'c \<Rightarrow> 'w \<Rightarrow> ('w, 'ch) outcome"
  tts_SynthesizeFromReader ::
    "('w Context \<Rightarrow> string \<Rightarrow> 'c \<Rightarrow> 'w \<Rightarrow> ('w, 'ch) outcome) option"

text \<open>
  Both packages declare the same \<open>Client\<close> struct, over their own \<open>Provider\<close> type:
  the registry map, the primary name and the fallback names.
\<close>

record 'p Client =
  providers :: "string \<rightharpoonup> 'p"
  primary :: string
  fallbacks :: "string list"

text \<open>
  The record of one provider invocation made by a client method: the registry key under which
  the provider was found and the error it returned. Each client method returns, next to its
  Go return values and the new world, the invocations it made, in order.
\<close>

type_synonym call = "string \<times> error option"

section \<open>Client construction and configuration\<close>

text \<open>The loop of \<open>stt.NewClient\<close>, from index \<open>i\<close> on.\<close>

fun stt_NewClient_loop ::
  "nat \<Rightarrow> ('w, 'c, 'r, 'wr, 'ch) stt_Provider list \<Rightarrow>
   ('w, 'c, 'r, 'wr, 'ch) stt_Provider Client \<Rightarrow> ('w, 'c, 'r, 'wr, 'ch) stt_Provider Client"
where
  "stt_NewClient_loop i [] c = c"
| "stt_NewClient_loop i (p # ps) c =
     (let c1 = c\<lparr>providers := (providers c)(stt_Name p \<mapsto> p)\<rparr>;
          c2 = (if i = 0 then c1\<lparr>primary := stt_Name p\<rparr>
                else c1\<lparr>fallbacks := fallbacks c1 @ [stt_Name p]\<rparr>)
      in stt_NewClient_loop (i + 1) ps c2)"

definition stt_NewClient ::
  "('w, 'c, 'r, 'wr, 'ch) stt_Provider list \<Rightarrow> ('w, 'c, 'r, 'wr, 'ch) stt_Provider Client"
where
  "stt_NewClient ps =
     stt_NewClient_loop 0 ps \<lparr>providers = Map.empty, primary = [], fallbacks = []\<rparr>"

text \<open>The loop of \<open>tts.NewClient\<close>, from index \<open>i\<close> on.\<close>

fun tts_NewClient_loop ::
  "nat \<Rightarrow> ('w, 'c, 'r, 'ch) tts_Provider list \<Rightarrow>
   ('w, 'c, 'r, 'ch) tts_Provider Client \<Rightarrow> ('w, 'c, 'r, 'ch) tts_Provider Client"
where
  "tts_NewClient_loop i [] c = c"
| "tts_NewClient_loop i (p # ps) c =
     (let c1 = c\<lparr>providers := (providers c)(tts_Name p \<mapsto> p)\<rparr>;
          c2 = (if i = 0 then c1\<lparr>primary := tts_Name p\<rparr>
                else c1\<lparr>fallbacks := fallbacks c1 @ [tts_Name p]\<rparr>)
      in tts_NewClient_loop (i + 1) ps c2)"

definition tts_NewClient ::
  "('w, 'c, 'r, 'ch) tts_Provider list \<Rightarrow> ('w, 'c, 'r, 'ch) tts_Provider Client"
where
  "tts_NewClient ps =
     tts_NewClient_loop 0 ps \<lparr>providers = Map.empty, primary = [], fallbacks = []\<rparr>"

text \<open>
  \<open>SetPrimary\<close>, \<open>SetFallbacks\<close> and \<open>Provider\<close> have the same body in both packages.
\<close>

definition SetPrimary :: "'p Client \<Rightarrow> string \<Rightarrow> 'p Client" where
  "SetPrimary c name = c\<lparr>primary := name\<rparr>"

definition SetFallbacks :: "'p Client \<Rightarrow> string list \<Rightarrow> 'p Client" where
  "SetFallbacks c names = c\<lparr>fallbacks := names\<rparr>"

definition Provider :: "'p Client \<Rightarrow> string \<Rightarrow> 'p option" where
  "Provider c name = providers c name"

section \<open>Batch operations with fallback\<close>

text \<open>The \<open>for _, name := range c.fallbacks\<close> loop of \<open>stt.Client.Transcribe\<close>.\<close>

fun stt_Client_Transcribe_fallbacks ::
  "('w, 'c, 'r, 'wr, 'ch) stt_Provider Client \<Rightarrow> 'w Context \<Rightarrow> byte list \<Rightarrow> 'c \<Rightarrow>
   string list \<Rightarrow> 'w \<Rightarrow> ('r option \<times> error option) \<times> 'w \<times> call list"
where
  "stt_Client_Transcribe_fallbacks c ctx audio config [] w =
     ((None, Some Stt_ErrNoAvailableProvider), w, [])"
| "stt_Client_Transcribe_fallbacks c ctx audio config (name # names) w =
     (case providers c name of
        None \<Rightarrow> stt_Client_Transcribe_fallbacks c ctx audio config names w
      | Some p \<Rightarrow>
          (case stt_Transcribe p ctx audio config w of
             ((result, err), w1) \<Rightarrow>
               if err = None then ((result, None), w1, [(name, err)])
               else (case stt_Client_Transcribe_fallbacks c ctx audio config names w1 of
                       (out, w2, calls) \<Rightarrow> (out, w2, (name, err) # calls))))"

definition stt_Client_Transcribe ::
  "('w, 'c, 'r, 'wr, 'ch) stt_Provider Client \<Rightarrow> 'w Context \<Rightarrow> byte list \<Rightarrow> 'c \<Rightarrow>
   'w \<Rightarrow> ('r option \<times> error option) \<times> 'w \<times> call list"
where
  "stt_Client_Transcribe c ctx audio config w =
     (case providers c (primary c) of
        None \<Rightarrow> stt_Client_Transcribe_fallbacks c ctx audio config (fallbacks c) w
      | Some p \<Rightarrow>
          (case stt_Transcribe p ctx audio config w of
             ((result, err), w1) \<Rightarrow>
               if err = None then ((result, None), w1, [(primary c, err)])
               else (case stt_Client_Transcribe_fallbacks c ctx audio config (fallbacks c) w1 of
                       (out, w2, calls) \<Rightarrow> (out, w2, (primary c, err) # calls))))"

text \<open>The \<open>for _, name := range c.fallbacks\<close> loop of \<open>tts.Client.Synthesize\<close>.\<close>

fun tts_Client_Synthesize_fallbacks ::
  "('w, 'c, 'r, 'ch) tts_Provider Client \<Rightarrow> 'w Context \<Rightarrow> string \<Rightarrow> 'c \<Rightarrow>
   string list \<Rightarrow> 'w \<Rightarrow> ('r option \<times> error option) \<times> 'w \<times> call list"
where
  "tts_Client_Synthesize_fallbacks c ctx text config [] w =
     ((None, Some Tts_ErrNoAvailableProvider), w, [])"
| "tts_Client_Synthesize_fallbacks c ctx text config (name # names) w =
     (case providers c name of
        None \<Rightarrow> tts_Client_Synthesize_fallbacks c ctx text config names w
      | Some p \<Rightarrow>
          (case tts_Synthesize p ctx text config w of
             ((result, err), w1) \<Rightarrow>
               if err = None then ((result, None), w1, [(name, err)])
               else (case tts_Client_Synthesize_fallbacks c ctx text config names w1 of
                       (out, w2, calls) \<Rightarrow> (out, w2, (name, err) # calls))))"

definition tts_Client_Synthesize ::
  "('w, 'c, 'r, 'ch) tts_Provider Client \<Rightarrow> 'w Context \<Rightarrow> string \<Rightarrow> 'c \<Rightarrow>
   'w \<Rightarrow> ('r option \<times> error option) \<times> 'w \<times> call list"
where
  "tts_Client_Synthesize c ctx text config w =
     (case providers c (primary c) of
        None \<Rightarrow> tts_Client_Synthesize_fallbacks c ctx text config (fallbacks c) w
      | Some p \<Rightarrow>
          (case tts_Synthesize p ctx text config w of
             ((result, err), w1) \<Rightarrow>
               if err = None then ((result, None), w1, [(primary c, err)])
               else (case tts_Client_Synthesize_fallbacks c ctx text config (fallbacks c) w1 of
                       (out, w2, calls) \<Rightarrow> (out, w2, (primary c, err) # calls))))"

section \<open>Streaming operations\<close>

text \<open>
  The fallback loop of \<open>stt.Client.TranscribeStream\<close>: the first resolving name whose
  provider satisfies \<open>StreamingProvider\<close> is called, and whatever it returns is returned.
\<close>

fun stt_Client_TranscribeStream_fallbacks ::
  "('w, 'c, 'r, 'wr, 'ch) stt_Provider Client \<Rightarrow> 'w Context \<Rightarrow> 'c \<Rightarrow>
   string list \<Rightarrow> 'w \<Rightarrow> ('wr option \<times> 'ch option \<times> error option) \<times> 'w \<times> call list"
where
  "stt_Client_TranscribeStream_fallbacks c ctx config [] w =
     ((None, None, Some Stt_ErrStreamingNotSupported), w, [])"
| "stt_Client_TranscribeStream_fallbacks c ctx config (name # names) w =
     (case providers c name of
        None \<Rightarrow> stt_Client_TranscribeStream_fallbacks c ctx config names w
      | Some p \<Rightarrow>
          (case stt_TranscribeStream p of
             None \<Rightarrow> stt_Client_TranscribeStream_fallbacks c ctx config names w
           | Some sp \<Rightarrow>
               (case sp ctx config w of
                  ((wr, ch, err), w1) \<Rightarrow> ((wr, ch, err), w1, [(name, err)]))))"

definition stt_Client_TranscribeStream ::
  "('w, 'c, 'r, 'wr, 'ch) stt_Provider Client \<Rightarrow> 'w Context \<Rightarrow> 'c \<Rightarrow>
   'w \<Rightarrow> ('wr option \<times> 'ch option \<times> error option) \<times> 'w \<times> call list"
where
  "stt_Client_TranscribeStream c ctx config w =
     (case providers c (primary c) of
        None \<Rightarrow> stt_Client_TranscribeStream_fallbacks c ctx config (fallbacks c) w
      | Some p \<Rightarrow>
          (case stt_TranscribeStream p of
             None \<Rightarrow> stt_Client_TranscribeStream_fallbacks c ctx config (fallbacks c) w
           | Some sp \<Rightarrow>
               (case sp ctx config w of
                  ((wr, ch, err), w1) \<Rightarrow> ((wr, ch, err), w1, [(primary c, err)]))))"

text \<open>
  The fallback loop of \<open>tts.Client.SynthesizeStream\<close>: every resolving name is called,
  with no type assertion, until one returns a nil error.
\<close>

fun tts_Client_SynthesizeStream_fallbacks ::
  "('w, 'c, 'r, 'ch) tts_Provider Client \<Rightarrow> 'w Context \<Rightarrow> string \<Rightarrow> 'c \<Rightarrow>
   string list \<Rightarrow> 'w \<Rightarrow> ('ch option \<times> error option) \<times> 'w \<times> call list"
where
  "tts_Client_SynthesizeStream_fallbacks c ctx text config [] w =
     ((None, Some Tts_ErrNoAvailableProvider), w, [])"
| "tts_Client_SynthesizeStream_fallbacks c ctx text config (name # names) w =
     (case providers c name of
        None \<Rightarrow> tts_Client_SynthesizeStream_fallbacks c ctx text config names w
      | Some p \<Rightarrow>
          (case tts_SynthesizeStream p ctx text config w of
             ((stream, err), w1) \<Rightarrow>
               if err = None then ((stream, None), w1, [(name, err)])
               else (case tts_Client_SynthesizeStream_fallbacks c ctx text config names w1 of
                       (out, w2, calls) \<Rightarrow> (out, w2, (name, err) # calls))))"

definition tts_Client_SynthesizeStream ::
  "('w, 'c, 'r, 'ch) tts_Provider Client \<Rightarrow> 'w Context \<Rightarrow> string \<Rightarrow> 'c \<Rightarrow>
   'w \<Rightarrow> ('ch option \<times> error option) \<times> 'w \<times> call list"
where
  "tts_Client_SynthesizeStream c ctx text config w =
     (case providers c (primary c) of
        None \<Rightarrow> tts_Client_SynthesizeStream_fallbacks c ctx text config (fallbacks c) w
      | Some p \<Rightarrow>
          (case tts_SynthesizeStream p ctx text config w of
             ((stream, err), w1) \<Rightarrow>
               if err = None then ((stream, None), w1, [(primary c, err)])
               else (case tts_Client_SynthesizeStream_fallbacks c ctx text config (fallbacks c) w1 of
                       (out, w2, calls) \<Rightarrow> (out, w2, (primary c, err) # calls))))"

section \<open>Candidate order, configuration sequences and stub providers\<close>

text \<open>The names among \<open>names\<close> that resolve in the client's registry, in order.\<close>

definition resolving :: "'p Client \<Rightarrow> string list \<Rightarrow> string list" where
  "resolving c names = filter (\<lambda>name. providers c name \<noteq> None) names"

text \<open>
  The invariant of the data model: the primary, if set (non-empty), names a registered
  provider.
\<close>

definition primary_registered :: "'p Client \<Rightarrow> bool" where
  "primary_registered c \<longleftrightarrow> primary c = [] \<or> providers c (primary c) \<noteq> None"

text \<open>A call of one of the two configuration methods, and a sequence of them applied in order.\<close>

datatype client_op = OpSetPrimary string | OpSetFallbacks "string list"

fun apply_op :: "'p Client \<Rightarrow> client_op \<Rightarrow> 'p Client" where
  "apply_op c (OpSetPrimary name) = SetPrimary c name"
| "apply_op c (OpSetFallbacks names) = SetFallbacks c names"

definition apply_ops :: "'p Client \<Rightarrow> client_op list \<Rightarrow> 'p Client" where
  "apply_ops c ops = foldl apply_op c ops"

text \<open>
  Call-counting stub providers: the world is the number of provider calls made so far, every
  call adds one, and the stub returns the same values each time. An stt stub is a
  \<open>StreamingProvider\<close> when it is given stream values; a tts stub is never one.
\<close>

definition stt_stub ::
  "string \<Rightarrow> string option \<times> error option \<Rightarrow> (unit option \<times> unit option \<times> error option) option \<Rightarrow>
   (nat, unit, string, unit, unit) stt_Provider"
where
  "stt_stub name out sout =
     \<lparr>stt_Name = name,
      stt_Transcribe = (\<lambda>ctx audio config w. (out, Suc w)),
      stt_TranscribeStream = map_option (\<lambda>vals. (\<lambda>ctx config w. (vals, Suc w))) sout\<rparr>"

definition tts_stub ::
  "string \<Rightarrow> string option \<times> error option \<Rightarrow> unit option \<times> error option \<Rightarrow>
   (nat, unit, string, unit) tts_Provider"
where
  "tts_stub name out sout =
     \<lparr>tts_Name = name,
      tts_Synthesize = (\<lambda>ctx text config w. (out, Suc w)),
      tts_SynthesizeStream = (\<lambda>ctx text config w. (sout, Suc w)),
      tts_SynthesizeFromReader = None\<rparr>"

text \<open>
  A stateful stub, as in the spec's end-to-end scenario: it fails on the first provider call
  made in the world and succeeds from the second on.
\<close>

definition stt_stub_fail_first ::
  "string \<Rightarrow> error \<Rightarrow> string \<Rightarrow> (nat, unit, string, unit, unit) stt_Provider"
where
  "stt_stub_fail_first name e r =
     \<lparr>stt_Name = name,
      stt_Transcribe = (\<lambda>ctx audio config w.
         (if w = 0 then (None, Some e) else (Some r, None), Suc w)),
      stt_TranscribeStream = None\<rparr>"

text \<open>
  \<open>context.Background()\<close> is never done; \<open>cancelled_after n\<close> is a context that is
  cancelled from the moment \<open>n\<close> provider calls have been made.
\<close>

definition background :: "'w Context" where
  "background w = None"

definition cancelled_after :: "nat \<Rightarrow> nat Context" where
  "cancelled_after n w = (if n \<le> w then Some Canceled else None)"

section \<open>Properties of the loops\<close>

subsection \<open>The fallback loop of stt.Client.Transcribe\<close>

lemma stt_fb_same_registry:
  "providers c = providers c' \<Longrightarrow>
   stt_Client_Transcribe_fallbacks c ctx audio config names w =
   stt_Client_Transcribe_fallbacks c' ctx audio config names w"
  by (induction names arbitrary: w) (simp_all split: option.splits prod.splits)

lemma stt_fb_skip:
  "stt_Client_Transcribe_fallbacks c ctx audio config (resolving c names) w =
   stt_Client_Transcribe_fallbacks c ctx audio config names w"
  by (induction names arbitrary: w)
     (auto simp: resolving_def split: option.splits prod.splits if_splits)

lemma stt_fb_origin:
  "stt_Client_Transcribe_fallbacks c ctx audio config names w = (out, w', calls) \<Longrightarrow>
   (\<exists>k p w0 r. k \<in> set names \<and> providers c k = Some p \<and>
       stt_Transcribe p ctx audio config w0 = ((r, None), w') \<and> out = (r, None)) \<or>
   out = (None, Some Stt_ErrNoAvailableProvider)"
proof (induction names arbitrary: w out w' calls)
  case Nil
  then show ?case by simp
next
  case (Cons k names)
  show ?case
  proof (cases "providers c k")
    case None
    with Cons.prems have "stt_Client_Transcribe_fallbacks c ctx audio config names w = (out, w', calls)"
      by simp
    from Cons.IH [OF this] show ?thesis by auto
  next
    case (Some p)
    obtain r e w0 where call: "stt_Transcribe p ctx audio config w = ((r, e), w0)"
      by (metis prod.exhaust)
    show ?thesis
    proof (cases e)
      case None
      with Some call Cons.prems have "out = (r, None)" "w' = w0" by simp_all
      with Some call None show ?thesis by auto
    next
      case (Some err)
      obtain out1 w1 calls1 where
        rest: "stt_Client_Transcribe_fallbacks c ctx audio config names w0 = (out1, w1, calls1)"
        by (metis prod.exhaust)
      with \<open>providers c k = Some p\<close> call Some Cons.prems have "out = out1" "w' = w1"
        by simp_all
      with Cons.IH [OF rest] show ?thesis by auto
    qed
  qed
qed

lemma stt_fb_all_failed:
  "stt_Client_Transcribe_fallbacks c ctx audio config names w = (out, w', calls) \<Longrightarrow>
   \<forall>x \<in> set calls. snd x \<noteq> None \<Longrightarrow>
   out = (None, Some Stt_ErrNoAvailableProvider) \<and> map fst calls = resolving c names"
  by (induction names arbitrary: w out w' calls)
     (auto simp: resolving_def split: option.splits prod.splits if_splits)

lemma stt_fb_append:
  "stt_Client_Transcribe_fallbacks c ctx audio config (xs @ ys) w =
     (case stt_Client_Transcribe_fallbacks c ctx audio config xs w of
        ((r, None), w1, calls1) \<Rightarrow> ((r, None), w1, calls1)
      | ((r, Some e), w1, calls1) \<Rightarrow>
          (case stt_Client_Transcribe_fallbacks c ctx audio config ys w1 of
             (out, w2, calls2) \<Rightarrow> (out, w2, calls1 @ calls2)))"
  by (induction xs arbitrary: w)
     (auto split: option.splits prod.splits if_splits)

lemma stt_fb_always_fail:
  assumes "\<forall>k q v. k \<in> set names \<and> providers c k = Some q \<longrightarrow>
       snd (fst (stt_Transcribe q ctx audio config v)) \<noteq> None"
  shows "\<exists>w1 calls. stt_Client_Transcribe_fallbacks c ctx audio config names w
       = ((None, Some Stt_ErrNoAvailableProvider), w1, calls) \<and>
       map fst calls = resolving c names"
  using assms
proof (induction names arbitrary: w)
  case Nil
  then show ?case by (simp add: resolving_def)
next
  case (Cons k names)
  have rest: "\<forall>k q v. k \<in> set names \<and> providers c k = Some q \<longrightarrow>
       snd (fst (stt_Transcribe q ctx audio config v)) \<noteq> None"
    using Cons.prems by auto
  show ?case
  proof (cases "providers c k")
    case None
    with Cons.IH [OF rest, of w] show ?thesis by (simp add: resolving_def)
  next
    case (Some q)
    obtain r e w0 where call: "stt_Transcribe q ctx audio config w = ((r, e), w0)"
      by (metis prod.exhaust)
    have "snd (fst (stt_Transcribe q ctx audio config w)) \<noteq> None"
      using Cons.prems Some by auto
    with call have e: "e \<noteq> None" by simp
    from Cons.IH [OF rest, of w0] obtain w1 calls where
      "stt_Client_Transcribe_fallbacks c ctx audio config names w0
         = ((None, Some Stt_ErrNoAvailableProvider), w1, calls)"
      "map fst calls = resolving c names" by blast
    with Some call e show ?thesis by (simp add: resolving_def)
  qed
qed


subsection \<open>The fallback loop of tts.Client.Synthesize\<close>

lemma tts_fb_same_registry:
  "providers c = providers c' \<Longrightarrow>
   tts_Client_Synthesize_fallbacks c ctx text config names w =
   tts_Client_Synthesize_fallbacks c' ctx text config names w"
  by (induction names arbitrary: w) (simp_all split: option.splits prod.splits)

lemma tts_fb_skip:
  "tts_Client_Synthesize_fallbacks c ctx text config (resolving c names) w =
   tts_Client_Synthesize_fallbacks c ctx text config names w"
  by (induction names arbitrary: w)
     (auto simp: resolving_def split: option.splits prod.splits if_splits)

lemma tts_fb_origin:
  "tts_Client_Synthesize_fallbacks c ctx text config names w = (out, w', calls) \<Longrightarrow>
   (\<exists>k p w0 r. k \<in> set names \<and> providers c k = Some p \<and>
       tts_Synthesize p ctx text config w0 = ((r, None), w') \<and> out = (r, None)) \<or>
   out = (None, Some Tts_ErrNoAvailableProvider)"
proof (induction names arbitrary: w out w' calls)
  case Nil
  then show ?case by simp
next
  case (Cons k names)
  show ?case
  proof (cases "providers c k")
    case None
    with Cons.prems have "tts_Client_Synthesize_fallbacks c ctx text config names w = (out, w', calls)"
      by simp
    from Cons.IH [OF this] show ?thesis by auto
  next
    case (Some p)
    obtain r e w0 where call: "tts_Synthesize p ctx text config w = ((r, e), w0)"
      by (metis prod.exhaust)
    show ?thesis
    proof (cases e)
      case None
      with Some call Cons.prems have "out = (r, None)" "w' = w0" by simp_all
      with Some call None show ?thesis by auto
    next
      case (Some err)
      obtain out1 w1 calls1 where
        rest: "tts_Client_Synthesize_fallbacks c ctx text config names w0 = (out1, w1, calls1)"
        by (metis prod.exhaust)
      with \<open>providers c k = Some p\<close> call Some Cons.prems have "out = out1" "w' = w1"
        by simp_all
      with Cons.IH [OF rest] show ?thesis by auto
    qed
  qed
qed

lemma tts_fb_all_failed:
  "tts_Client_Synthesize_fallbacks c ctx text config names w = (out, w', calls) \<Longrightarrow>
   \<forall>x \<in> set calls. snd x \<noteq> None \<Longrightarrow>
   out = (None, Some Tts_ErrNoAvailableProvider) \<and> map fst calls = resolving c names"
  by (induction names arbitrary: w out w' calls)
     (auto simp: resolving_def split: option.splits prod.splits if_splits)

lemma tts_fb_append:
  "tts_Client_Synthesize_fallbacks c ctx text config (xs @ ys) w =
     (case tts_Client_Synthesize_fallbacks c ctx text config xs w of
        ((r, None), w1, calls1) \<Rightarrow> ((r, None), w1, calls1)
      | ((r, Some e), w1, calls1) \<Rightarrow>
          (case tts_Client_Synthesize_fallbacks c ctx text config ys w1 of
             (out, w2, calls2) \<Rightarrow> (out, w2, calls1 @ calls2)))"
  by (induction xs arbitrary: w)
     (auto split: option.splits prod.splits if_splits)

lemma tts_fb_always_fail:
  assumes "\<forall>k q v. k \<in> set names \<and> providers c k = Some q \<longrightarrow>
       snd (fst (tts_Synthesize q ctx text config v)) \<noteq> None"
  shows "\<exists>w1 calls. tts_Client_Synthesize_fallbacks c ctx text config names w
       = ((None, Some Tts_ErrNoAvailableProvider), w1, calls) \<and>
       map fst calls = resolving c names"
  using assms
proof (induction names arbitrary: w)
  case Nil
  then show ?case by (simp add: resolving_def)
next
  case (Cons k names)
  have rest: "\<forall>k q v. k \<in> set names \<and> providers c k = Some q \<longrightarrow>
       snd (fst (tts_Synthesize q ctx text config v)) \<noteq> None"
    using Cons.prems by auto
  show ?case
  proof (cases "providers c k")
    case None
    with Cons.IH [OF rest, of w] show ?thesis by (simp add: resolving_def)
  next
    case (Some q)
    obtain r e w0 where call: "tts_Synthesize q ctx text config w = ((r, e), w0)"
      by (metis prod.exhaust)
    have "snd (fst (tts_Synthesize q ctx text config w)) \<noteq> None"
      using Cons.prems Some by auto
    with call have e: "e \<noteq> None" by simp
    from Cons.IH [OF rest, of w0] obtain w1 calls where
      "tts_Client_Synthesize_fallbacks c ctx text config names w0
         = ((None, Some Tts_ErrNoAvailableProvider), w1, calls)"
      "map fst calls = resolving c names" by blast
    with Some call e show ?thesis by (simp add: resolving_def)
  qed
qed


subsection \<open>The fallback loops of the streaming operations\<close>

lemma stt_stream_fb_none_capable:
  "\<forall>k p. k \<in> set names \<and> providers c k = Some p \<longrightarrow> stt_TranscribeStream p = None \<Longrightarrow>
   stt_Client_TranscribeStream_fallbacks c ctx config names w =
     ((None, None, Some Stt_ErrStreamingNotSupported), w, [])"
proof (induction names)
  case Nil
  show ?case by simp
next
  case (Cons k names)
  have rest: "\<forall>k p. k \<in> set names \<and> providers c k = Some p \<longrightarrow> stt_TranscribeStream p = None"
    using Cons.prems by auto
  show ?case
  proof (cases "providers c k")
    case None
    with Cons.IH [OF rest] show ?thesis by simp
  next
    case (Some p)
    then have "stt_TranscribeStream p = None" using Cons.prems by auto
    with Some Cons.IH [OF rest] show ?thesis by simp
  qed
qed

lemma tts_stream_fb_error_kind:
  "tts_Client_SynthesizeStream_fallbacks c ctx text config names w = (out, w', calls) \<Longrightarrow>
   snd out = None \<or> out = (None, Some Tts_ErrNoAvailableProvider)"
  by (induction names arbitrary: w out w' calls)
     (auto split: option.splits prod.splits if_splits)

subsection \<open>NewClient and the configuration methods\<close>

lemma stt_NewClient_loop_fields:
  "providers (stt_NewClient_loop i ps c) k =
     (case filter (\<lambda>q. stt_Name q = k) ps of [] \<Rightarrow> providers c k | q # qs \<Rightarrow> Some (last (q # qs)))"
  "primary (stt_NewClient_loop i ps c) =
     (if i = 0 \<and> ps \<noteq> [] then stt_Name (hd ps) else primary c)"
  "fallbacks (stt_NewClient_loop i ps c) =
     fallbacks c @ map stt_Name (if i = 0 then tl ps else ps)"
  by (induction ps arbitrary: i c) (auto simp: Let_def split: list.splits)

lemma tts_NewClient_loop_fields:
  "providers (tts_NewClient_loop i ps c) k =
     (case filter (\<lambda>q. tts_Name q = k) ps of [] \<Rightarrow> providers c k | q # qs \<Rightarrow> Some (last (q # qs)))"
  "primary (tts_NewClient_loop i ps c) =
     (if i = 0 \<and> ps \<noteq> [] then tts_Name (hd ps) else primary c)"
  "fallbacks (tts_NewClient_loop i ps c) =
     fallbacks c @ map tts_Name (if i = 0 then tl ps else ps)"
  by (induction ps arbitrary: i c) (auto simp: Let_def split: list.splits)



lemma apply_ops_providers: "providers (apply_ops c ops) = providers c"
  unfolding apply_ops_def
proof (induction ops arbitrary: c)
  case Nil
  show ?case by simp
next
  case (Cons x ops)
  show ?case by (cases x) (simp_all add: Cons.IH SetPrimary_def SetFallbacks_def)
qed


subsection \<open>The client operations as one pass over the candidate order\<close>

lemma stt_Client_Transcribe_loop:
  "stt_Client_Transcribe c ctx audio config w =
   stt_Client_Transcribe_fallbacks c ctx audio config (primary c # fallbacks c) w"
  by (simp add: stt_Client_Transcribe_def split: option.splits prod.splits)

lemma tts_Client_Synthesize_loop:
  "tts_Client_Synthesize c ctx text config w =
   tts_Client_Synthesize_fallbacks c ctx text config (primary c # fallbacks c) w"
  by (simp add: tts_Client_Synthesize_def split: option.splits prod.splits)

lemma stt_Client_TranscribeStream_loop:
  "stt_Client_TranscribeStream c ctx config w =
   stt_Client_TranscribeStream_fallbacks c ctx config (primary c # fallbacks c) w"
  by (simp add: stt_Client_TranscribeStream_def split: option.splits prod.splits)

lemma tts_Client_SynthesizeStream_loop:
  "tts_Client_SynthesizeStream c ctx text config w =
   tts_Client_SynthesizeStream_fallbacks c ctx text config (primary c # fallbacks c) w"
  by (simp add: tts_Client_SynthesizeStream_def split: option.splits prod.splits)

lemma stt_fb_first_call:
  "providers c k = Some p \<Longrightarrow>
   \<exists>e rest. snd (snd (stt_Client_Transcribe_fallbacks c ctx audio config (k # names) w))
     = (k, e) # rest"
  by (simp split: prod.splits)

lemma tts_fb_first_call:
  "providers c k = Some p \<Longrightarrow>
   \<exists>e rest. snd (snd (tts_Client_Synthesize_fallbacks c ctx text config (k # names) w))
     = (k, e) # rest"
  by (simp split: prod.splits)

lemmas stub_defs =
  stt_stub_def tts_stub_def stt_stub_fail_first_def stt_NewClient_def tts_NewClient_def SetPrimary_def SetFallbacks_def
  stt_Client_Transcribe_def tts_Client_Synthesize_def stt_Client_TranscribeStream_def
  tts_Client_SynthesizeStream_def background_def cancelled_after_def resolving_def
  apply_ops_def primary_registered_def

subsection \<open>Runs in which every attempt failed\<close>


lemma stt_all_attempts_failed:
  assumes "\<forall>x \<in> set (snd (snd (stt_Client_Transcribe c ctx audio config w))). snd x \<noteq> None"
  shows "fst (stt_Client_Transcribe c ctx audio config w) = (None, Some Stt_ErrNoAvailableProvider) \<and>
     map fst (snd (snd (stt_Client_Transcribe c ctx audio config w)))
       = resolving c (primary c # fallbacks c)"
proof -
  obtain out w' calls where
    run: "stt_Client_Transcribe_fallbacks c ctx audio config (primary c # fallbacks c) w = (out, w', calls)"
    by (metis prod.exhaust)
  with assms have "\<forall>x \<in> set calls. snd x \<noteq> None"
    by (simp add: stt_Client_Transcribe_loop)
  from stt_fb_all_failed [OF run this] run show ?thesis
    by (simp add: stt_Client_Transcribe_loop)
qed

lemma tts_all_attempts_failed:
  assumes "\<forall>x \<in> set (snd (snd (tts_Client_Synthesize c ctx text config w))). snd x \<noteq> None"
  shows "fst (tts_Client_Synthesize c ctx text config w) = (None, Some Tts_ErrNoAvailableProvider) \<and>
     map fst (snd (snd (tts_Client_Synthesize c ctx text config w)))
       = resolving c (primary c # fallbacks c)"
proof -
  obtain out w' calls where
    run: "tts_Client_Synthesize_fallbacks c ctx text config (primary c # fallbacks c) w = (out, w', calls)"
    by (metis prod.exhaust)
  with assms have "\<forall>x \<in> set calls. snd x \<noteq> None"
    by (simp add: tts_Client_Synthesize_loop)
  from tts_fb_all_failed [OF run this] run show ?thesis
    by (simp add: tts_Client_Synthesize_loop)
qed

subsection \<open>The shape of a run\<close>

lemma stt_fb_run:
  "stt_Client_Transcribe_fallbacks d ctx audio config names w = (out, w', calls) \<Longrightarrow>
   (\<exists>rest. resolving d names = map fst calls @ rest) \<and>
   (\<forall>x \<in> set (butlast calls). snd x \<noteq> None) \<and>
   ((out = (None, Some Stt_ErrNoAvailableProvider) \<and> (\<forall>x \<in> set calls. snd x \<noteq> None) \<and>
       map fst calls = resolving d names) \<or>
    (\<exists>k p w0 s. calls \<noteq> [] \<and> last calls = (k, None) \<and> providers d k = Some p \<and>
       stt_Transcribe p ctx audio config w0 = ((s, None), w') \<and> out = (s, None)))"
proof (induction names arbitrary: w out w' calls)
  case Nil
  then show ?case by (simp add: resolving_def)
next
  case (Cons k names)
  show ?case
  proof (cases "providers d k")
    case None
    with Cons.prems have
      run: "stt_Client_Transcribe_fallbacks d ctx audio config names w = (out, w', calls)"
      by simp
    from None have "resolving d (k # names) = resolving d names" by (simp add: resolving_def)
    with Cons.IH [OF run] show ?thesis by simp
  next
    case (Some p)
    then have res: "resolving d (k # names) = k # resolving d names" by (simp add: resolving_def)
    obtain s e w0 where call: "stt_Transcribe p ctx audio config w = ((s, e), w0)"
      by (metis prod.exhaust)
    show ?thesis
    proof (cases e)
      case None
      with Some call Cons.prems have "out = (s, None)" "w' = w0" "calls = [(k, None)]"
        by simp_all
      with Some call None res show ?thesis by auto
    next
      case (Some err)
      obtain out1 w1 calls1 where
        run: "stt_Client_Transcribe_fallbacks d ctx audio config names w0 = (out1, w1, calls1)"
        by (metis prod.exhaust)
      with \<open>providers d k = Some p\<close> call Some Cons.prems
      have eq: "out = out1" "w' = w1" "calls = (k, Some err) # calls1"
        by simp_all
      from Cons.IH [OF run] have
        a: "\<exists>rest. resolving d names = map fst calls1 @ rest" and
        b: "\<forall>x \<in> set (butlast calls1). snd x \<noteq> None" and
        c: "(out1 = (None, Some Stt_ErrNoAvailableProvider) \<and> (\<forall>x \<in> set calls1. snd x \<noteq> None) \<and>
             map fst calls1 = resolving d names) \<or>
            (\<exists>k p w0 s. calls1 \<noteq> [] \<and> last calls1 = (k, None) \<and> providers d k = Some p \<and>
               stt_Transcribe p ctx audio config w0 = ((s, None), w1) \<and> out1 = (s, None))"
        by blast+
      from a res eq have a': "\<exists>rest. resolving d (k # names) = map fst calls @ rest" by simp
      from b eq have b': "\<forall>x \<in> set (butlast calls). snd x \<noteq> None" by auto
      from c res eq have c': "(out = (None, Some Stt_ErrNoAvailableProvider) \<and> (\<forall>x \<in> set calls. snd x \<noteq> None) \<and>
             map fst calls = resolving d (k # names)) \<or>
            (\<exists>k p w0 s. calls \<noteq> [] \<and> last calls = (k, None) \<and> providers d k = Some p \<and>
               stt_Transcribe p ctx audio config w0 = ((s, None), w') \<and> out = (s, None))"
        by auto
      from a' b' c' show ?thesis by blast
    qed
  qed
qed


lemma tts_fb_run:
  "tts_Client_Synthesize_fallbacks d ctx text config names w = (out, w', calls) \<Longrightarrow>
   (\<exists>rest. resolving d names = map fst calls @ rest) \<and>
   (\<forall>x \<in> set (butlast calls). snd x \<noteq> None) \<and>
   ((out = (None, Some Tts_ErrNoAvailableProvider) \<and> (\<forall>x \<in> set calls. snd x \<noteq> None) \<and>
       map fst calls = resolving d names) \<or>
    (\<exists>k p w0 s. calls \<noteq> [] \<and> last calls = (k, None) \<and> providers d k = Some p \<and>
       tts_Synthesize p ctx text config w0 = ((s, None), w') \<and> out = (s, None)))"
proof (induction names arbitrary: w out w' calls)
  case Nil
  then show ?case by (simp add: resolving_def)
next
  case (Cons k names)
  show ?case
  proof (cases "providers d k")
    case None
    with Cons.prems have
      run: "tts_Client_Synthesize_fallbacks d ctx text config names w = (out, w', calls)"
      by simp
    from None have "resolving d (k # names) = resolving d names" by (simp add: resolving_def)
    with Cons.IH [OF run] show ?thesis by simp
  next
    case (Some p)
    then have res: "resolving d (k # names) = k # resolving d names" by (simp add: resolving_def)
    obtain s e w0 where call: "tts_Synthesize p ctx text config w = ((s, e), w0)"
      by (metis prod.exhaust)
    show ?thesis
    proof (cases e)
      case None
      with Some call Cons.prems have "out = (s, None)" "w' = w0" "calls = [(k, None)]"
        by simp_all
      with Some call None res show ?thesis by auto
    next
      case (Some err)
      obtain out1 w1 calls1 where
        run: "tts_Client_Synthesize_fallbacks d ctx text config names w0 = (out1, w1, calls1)"
        by (metis prod.exhaust)
      with \<open>providers d k = Some p\<close> call Some Cons.prems
      have eq: "out = out1" "w' = w1" "calls = (k, Some err) # calls1"
        by simp_all
      from Cons.IH [OF run] have
        a: "\<exists>rest. resolving d names = map fst calls1 @ rest" and
        b: "\<forall>x \<in> set (butlast calls1). snd x \<noteq> None" and
        c: "(out1 = (None, Some Tts_ErrNoAvailableProvider) \<and> (\<forall>x \<in> set calls1. snd x \<noteq> None) \<and>
             map fst calls1 = resolving d names) \<or>
            (\<exists>k p w0 s. calls1 \<noteq> [] \<and> last calls1 = (k, None) \<and> providers d k = Some p \<and>
               tts_Synthesize p ctx text config w0 = ((s, None), w1) \<and> out1 = (s, None))"
        by blast+
      from a res eq have a': "\<exists>rest. resolving d (k # names) = map fst calls @ rest" by simp
      from b eq have b': "\<forall>x \<in> set (butlast calls). snd x \<noteq> None" by auto
      from c res eq have c': "(out = (None, Some Tts_ErrNoAvailableProvider) \<and> (\<forall>x \<in> set calls. snd x \<noteq> None) \<and>
             map fst calls = resolving d (k # names)) \<or>
            (\<exists>k p w0 s. calls \<noteq> [] \<and> last calls = (k, None) \<and> providers d k = Some p \<and>
               tts_Synthesize p ctx text config w0 = ((s, None), w') \<and> out = (s, None))"
        by auto
      from a' b' c' show ?thesis by blast
    qed
  qed
qed

lemma tts_stream_fb_run:
  "tts_Client_SynthesizeStream_fallbacks d ctx text config names w = (out, w', calls) \<Longrightarrow>
   (\<exists>rest. resolving d names = map fst calls @ rest) \<and>
   (\<forall>x \<in> set (butlast calls). snd x \<noteq> None) \<and>
   ((out = (None, Some Tts_ErrNoAvailableProvider) \<and> (\<forall>x \<in> set calls. snd x \<noteq> None) \<and>
       map fst calls = resolving d names) \<or>
    (\<exists>k p w0 s. calls \<noteq> [] \<and> last calls = (k, None) \<and> providers d k = Some p \<and>
       tts_SynthesizeStream p ctx text config w0 = ((s, None), w') \<and> out = (s, None)))"
proof (induction names arbitrary: w out w' calls)
  case Nil
  then show ?case by (simp add: resolving_def)
next
  case (Cons k names)
  show ?case
  proof (cases "providers d k")
    case None
    with Cons.prems have
      run: "tts_Client_SynthesizeStream_fallbacks d ctx text config names w = (out, w', calls)"
      by simp
    from None have "resolving d (k # names) = resolving d names" by (simp add: resolving_def)
    with Cons.IH [OF run] show ?thesis by simp
  next
    case (Some p)
    then have res: "resolving d (k # names) = k # resolving d names" by (simp add: resolving_def)
    obtain s e w0 where call: "tts_SynthesizeStream p ctx text config w = ((s, e), w0)"
      by (metis prod.exhaust)
    show ?thesis
    proof (cases e)
      case None
      with Some call Cons.prems have "out = (s, None)" "w' = w0" "calls = [(k, None)]"
        by simp_all
      with Some call None res show ?thesis by auto
    next
      case (Some err)
      obtain out1 w1 calls1 where
        run: "tts_Client_SynthesizeStream_fallbacks d ctx text config names w0 = (out1, w1, calls1)"
        by (metis prod.exhaust)
      with \<open>providers d k = Some p\<close> call Some Cons.prems
      have eq: "out = out1" "w' = w1" "calls = (k, Some err) # calls1"
        by simp_all
      from Cons.IH [OF run] have
        a: "\<exists>rest. resolving d names = map fst calls1 @ rest" and
        b: "\<forall>x \<in> set (butlast calls1). snd x \<noteq> None" and
        c: "(out1 = (None, Some Tts_ErrNoAvailableProvider) \<and> (\<forall>x \<in> set calls1. snd x \<noteq> None) \<and>
             map fst calls1 = resolving d names) \<or>
            (\<exists>k p w0 s. calls1 \<noteq> [] \<and> last calls1 = (k, None) \<and> providers d k = Some p \<and>
               tts_SynthesizeStream p ctx text config w0 = ((s, None), w1) \<and> out1 = (s, None))"
        by blast+
      from a res eq have a': "\<exists>rest. resolving d (k # names) = map fst calls @ rest" by simp
      from b eq have b': "\<forall>x \<in> set (butlast calls). snd x \<noteq> None" by auto
      from c res eq have c': "(out = (None, Some Tts_ErrNoAvailableProvider) \<and> (\<forall>x \<in> set calls. snd x \<noteq> None) \<and>
             map fst calls = resolving d (k # names)) \<or>
            (\<exists>k p w0 s. calls \<noteq> [] \<and> last calls = (k, None) \<and> providers d k = Some p \<and>
               tts_SynthesizeStream p ctx text config w0 = ((s, None), w') \<and> out = (s, None))"
        by auto
      from a' b' c' show ?thesis by blast
    qed
  qed
qed

lemma tts_stream_fb_capability:
  "\<forall>k. providers d' k = map_option (\<lambda>p. p\<lparr>tts_SynthesizeFromReader := cap k\<rparr>) (providers d k) \<Longrightarrow>
   tts_Client_SynthesizeStream_fallbacks d' ctx text config names w =
   tts_Client_SynthesizeStream_fallbacks d ctx text config names w"
proof (induction names arbitrary: w)
  case Nil
  show ?case by simp
next
  case (Cons k names)
  show ?case
  proof (cases "providers d k")
    case None
    with Cons.prems have "providers d' k = None" by simp
    with None Cons.IH [OF Cons.prems] show ?thesis by simp
  next
    case (Some p)
    with Cons.prems have "providers d' k = Some (p\<lparr>tts_SynthesizeFromReader := cap k\<rparr>)" by simp
    with Some Cons.IH [OF Cons.prems] show ?thesis by (simp split: prod.splits)
  qed
qed

subsection \<open>A primary that is listed among the fallbacks\<close>

lemma stt_primary_listed_again_core:
  assumes reg: "providers c (primary c) = Some p"
    and fb: "fallbacks c = pre @ primary c # post"
    and first: "stt_Client_Transcribe_fallbacks c ctx audio config (primary c # pre) w
              = ((None, Some Stt_ErrNoAvailableProvider), w1, calls1)"
    and names1: "map fst calls1 = resolving c (primary c # pre)"
  shows "\<exists>e0 mid e1 rest.
           snd (snd (stt_Client_Transcribe c ctx audio config w))
             = (primary c, e0) # mid @ (primary c, e1) # rest \<and>
           map fst mid = resolving c pre"
proof -
  from names1 reg have "map fst calls1 = primary c # resolving c pre"
    by (simp add: resolving_def)
  then obtain e0 mid where calls1: "calls1 = (primary c, e0) # mid"
    and mid: "map fst mid = resolving c pre"
    by (cases calls1) auto
  obtain out2 w2 calls2 where
    run2: "stt_Client_Transcribe_fallbacks c ctx audio config (primary c # post) w1
             = (out2, w2, calls2)"
    by (metis prod.exhaust)
  from stt_fb_first_call [OF reg, of ctx "audio" config post w1] obtain e1 rest where
    "snd (snd (stt_Client_Transcribe_fallbacks c ctx audio config (primary c # post) w1))
               = (primary c, e1) # rest"
    by blast
  then have calls2: "calls2 = (primary c, e1) # rest"
    unfolding run2 by simp
  have "stt_Client_Transcribe_fallbacks c ctx audio config
          ((primary c # pre) @ (primary c # post)) w = (out2, w2, calls1 @ calls2)"
    by (simp only: stt_fb_append first run2 prod.case option.case)
  then have "snd (snd (stt_Client_Transcribe c ctx audio config w)) = calls1 @ calls2"
    by (simp add: stt_Client_Transcribe_loop fb del: stt_Client_Transcribe_fallbacks.simps)
  then have "snd (snd (stt_Client_Transcribe c ctx audio config w))
      = (primary c, e0) # mid @ (primary c, e1) # rest"
    by (simp add: calls1 calls2)
  with mid show ?thesis by blast
qed

lemma stt_primary_listed_again_run:
  assumes reg: "providers c (primary c) = Some p"
    and fb: "fallbacks c = pre @ primary c # post"
    and fail: "\<forall>x \<in> set (take (Suc (length (resolving c pre)))
                    (snd (snd (stt_Client_Transcribe c ctx audio config w)))). snd x \<noteq> None"
  shows "\<exists>e0 mid e1 rest.
           snd (snd (stt_Client_Transcribe c ctx audio config w))
             = (primary c, e0) # mid @ (primary c, e1) # rest \<and>
           map fst mid = resolving c pre"
proof -
  obtain out1 w1 calls1 where
    run1: "stt_Client_Transcribe_fallbacks c ctx audio config (primary c # pre) w
             = (out1, w1, calls1)"
    by (metis prod.exhaust)
  from reg have res: "resolving c (primary c # pre) = primary c # resolving c pre"
    by (simp add: resolving_def)
  from stt_fb_run [OF run1] have
    pre: "\<exists>rest. resolving c (primary c # pre) = map fst calls1 @ rest" and
    alt: "(out1 = (None, Some Stt_ErrNoAvailableProvider) \<and> (\<forall>x \<in> set calls1. snd x \<noteq> None) \<and>
            map fst calls1 = resolving c (primary c # pre)) \<or>
          (\<exists>k p w0 s. calls1 \<noteq> [] \<and> last calls1 = (k, None) \<and> providers c k = Some p \<and>
            stt_Transcribe p ctx audio config w0 = ((s, None), w1) \<and> out1 = (s, None))"
    by blast+
  from pre obtain rest where "resolving c (primary c # pre) = map fst calls1 @ rest" by blast
  then have "length (resolving c (primary c # pre)) = length calls1 + length rest"
    by (metis length_append length_map)
  with res have len: "length calls1 \<le> Suc (length (resolving c pre))" by simp
  from alt show ?thesis
  proof
    assume "out1 = (None, Some Stt_ErrNoAvailableProvider) \<and> (\<forall>x \<in> set calls1. snd x \<noteq> None) \<and>
            map fst calls1 = resolving c (primary c # pre)"
    with run1 have
      "stt_Client_Transcribe_fallbacks c ctx audio config (primary c # pre) w
         = ((None, Some Stt_ErrNoAvailableProvider), w1, calls1)"
      "map fst calls1 = resolving c (primary c # pre)"
      by simp_all
    from stt_primary_listed_again_core [OF reg fb this] show ?thesis .
  next
    assume "\<exists>k p w0 s. calls1 \<noteq> [] \<and> last calls1 = (k, None) \<and> providers c k = Some p \<and>
            stt_Transcribe p ctx audio config w0 = ((s, None), w1) \<and> out1 = (s, None)"
    then obtain k s where ne: "calls1 \<noteq> []" and lst: "last calls1 = (k, None)"
      and out1: "out1 = (s, None)" by blast
    have "stt_Client_Transcribe_fallbacks c ctx audio config
            ((primary c # pre) @ (primary c # post)) w = ((s, None), w1, calls1)"
      using run1 out1 by (simp only: stt_fb_append prod.case option.case)
    then have "snd (snd (stt_Client_Transcribe c ctx audio config w)) = calls1"
      by (simp add: stt_Client_Transcribe_loop fb del: stt_Client_Transcribe_fallbacks.simps)
    with fail len have "\<forall>x \<in> set calls1. snd x \<noteq> None" by simp
    moreover from ne have "last calls1 \<in> set calls1" by simp
    ultimately have "snd (last calls1) \<noteq> None" by blast
    with lst show ?thesis by simp
  qed
qed

lemma stt_primary_listed_again_always:
  assumes reg: "providers c (primary c) = Some p"
    and fb: "fallbacks c = pre @ primary c # post"
    and fail: "\<forall>k q v. k \<in> set (primary c # pre) \<and> providers c k = Some q \<longrightarrow>
                 snd (fst (stt_Transcribe q ctx audio config v)) \<noteq> None"
  shows "\<exists>e0 mid e1 rest.
           snd (snd (stt_Client_Transcribe c ctx audio config w))
             = (primary c, e0) # mid @ (primary c, e1) # rest \<and>
           map fst mid = resolving c pre"
proof -
  from stt_fb_always_fail [OF fail, of w] obtain w1 calls1 where
    "stt_Client_Transcribe_fallbacks c ctx audio config (primary c # pre) w
              = ((None, Some Stt_ErrNoAvailableProvider), w1, calls1)"
    "map fst calls1 = resolving c (primary c # pre)"
    by blast
  from stt_primary_listed_again_core [OF reg fb this] show ?thesis .
qed

lemma tts_primary_listed_again_core:
  assumes reg: "providers c (primary c) = Some p"
    and fb: "fallbacks c = pre @ primary c # post"
    and first: "tts_Client_Synthesize_fallbacks c ctx text config (primary c # pre) w
              = ((None, Some Tts_ErrNoAvailableProvider), w1, calls1)"
    and names1: "map fst calls1 = resolving c (primary c # pre)"
  shows "\<exists>e0 mid e1 rest.
           snd (snd (tts_Client_Synthesize c ctx text config w))
             = (primary c, e0) # mid @ (primary c, e1) # rest \<and>
           map fst mid = resolving c pre"
proof -
  from names1 reg have "map fst calls1 = primary c # resolving c pre"
    by (simp add: resolving_def)
  then obtain e0 mid where calls1: "calls1 = (primary c, e0) # mid"
    and mid: "map fst mid = resolving c pre"
    by (cases calls1) auto
  obtain out2 w2 calls2 where
    run2: "tts_Client_Synthesize_fallbacks c ctx text config (primary c # post) w1
             = (out2, w2, calls2)"
    by (metis prod.exhaust)
  from tts_fb_first_call [OF reg, of ctx "text" config post w1] obtain e1 rest where
    "snd (snd (tts_Client_Synthesize_fallbacks c ctx text config (primary c # post) w1))
               = (primary c, e1) # rest"
    by blast
  then have calls2: "calls2 = (primary c, e1) # rest"
    unfolding run2 by simp
  have "tts_Client_Synthesize_fallbacks c ctx text config
          ((primary c # pre) @ (primary c # post)) w = (out2, w2, calls1 @ calls2)"
    by (simp only: tts_fb_append first run2 prod.case option.case)
  then have "snd (snd (tts_Client_Synthesize c ctx text config w)) = calls1 @ calls2"
    by (simp add: tts_Client_Synthesize_loop fb del: tts_Client_Synthesize_fallbacks.simps)
  then have "snd (snd (tts_Client_Synthesize c ctx text config w))
      = (primary c, e0) # mid @ (primary c, e1) # rest"
    by (simp add: calls1 calls2)
  with mid show ?thesis by blast
qed

lemma tts_primary_listed_again_run:
  assumes reg: "providers c (primary c) = Some p"
    and fb: "fallbacks c = pre @ primary c # post"
    and fail: "\<forall>x \<in> set (take (Suc (length (resolving c pre)))
                    (snd (snd (tts_Client_Synthesize c ctx text config w)))). snd x \<noteq> None"
  shows "\<exists>e0 mid e1 rest.
           snd (snd (tts_Client_Synthesize c ctx text config w))
             = (primary c, e0) # mid @ (primary c, e1) # rest \<and>
           map fst mid = resolving c pre"
proof -
  obtain out1 w1 calls1 where
    run1: "tts_Client_Synthesize_fallbacks c ctx text config (primary c # pre) w
             = (out1, w1, calls1)"
    by (metis prod.exhaust)
  from reg have res: "resolving c (primary c # pre) = primary c # resolving c pre"
    by (simp add: resolving_def)
  from tts_fb_run [OF run1] have
    pre: "\<exists>rest. resolving c (primary c # pre) = map fst calls1 @ rest" and
    alt: "(out1 = (None, Some Tts_ErrNoAvailableProvider) \<and> (\<forall>x \<in> set calls1. snd x \<noteq> None) \<and>
            map fst calls1 = resolving c (primary c # pre)) \<or>
          (\<exists>k p w0 s. calls1 \<noteq> [] \<and> last calls1 = (k, None) \<and> providers c k = Some p \<and>
            tts_Synthesize p ctx text config w0 = ((s, None), w1) \<and> out1 = (s, None))"
    by blast+
  from pre obtain rest where "resolving c (primary c # pre) = map fst calls1 @ rest" by blast
  then have "length (resolving c (primary c # pre)) = length calls1 + length rest"
    by (metis length_append length_map)
  with res have len: "length calls1 \<le> Suc (length (resolving c pre))" by simp
  from alt show ?thesis
  proof
    assume "out1 = (None, Some Tts_ErrNoAvailableProvider) \<and> (\<forall>x \<in> set calls1. snd x \<noteq> None) \<and>
            map fst calls1 = resolving c (primary c # pre)"
    with run1 have
      "tts_Client_Synthesize_fallbacks c ctx text config (primary c # pre) w
         = ((None, Some Tts_ErrNoAvailableProvider), w1, calls1)"
      "map fst calls1 = resolving c (primary c # pre)"
      by simp_all
    from tts_primary_listed_again_core [OF reg fb this] show ?thesis .
  next
    assume "\<exists>k p w0 s. calls1 \<noteq> [] \<and> last calls1 = (k, None) \<and> providers c k = Some p \<and>
            tts_Synthesize p ctx text config w0 = ((s, None), w1) \<and> out1 = (s, None)"
    then obtain k s where ne: "calls1 \<noteq> []" and lst: "last calls1 = (k, None)"
      and out1: "out1 = (s, None)" by blast
    have "tts_Client_Synthesize_fallbacks c ctx text config
            ((primary c # pre) @ (primary c # post)) w = ((s, None), w1, calls1)"
      using run1 out1 by (simp only: tts_fb_append prod.case option.case)
    then have "snd (snd (tts_Client_Synthesize c ctx text config w)) = calls1"
      by (simp add: tts_Client_Synthesize_loop fb del: tts_Client_Synthesize_fallbacks.simps)
    with fail len have "\<forall>x \<in> set calls1. snd x \<noteq> None" by simp
    moreover from ne have "last calls1 \<in> set calls1" by simp
    ultimately have "snd (last calls1) \<noteq> None" by blast
    with lst show ?thesis by simp
  qed
qed

lemma tts_primary_listed_again_always:
  assumes reg: "providers c (primary c) = Some p"
    and fb: "fallbacks c = pre @ primary c # post"
    and fail: "\<forall>k q v. k \<in> set (primary c # pre) \<and> providers c k = Some q \<longrightarrow>
                 snd (fst (tts_Synthesize q ctx text config v)) \<noteq> None"
  shows "\<exists>e0 mid e1 rest.
           snd (snd (tts_Client_Synthesize c ctx text config w))
             = (primary c, e0) # mid @ (primary c, e1) # rest \<and>
           map fst mid = resolving c pre"
proof -
  from tts_fb_always_fail [OF fail, of w] obtain w1 calls1 where
    "tts_Client_Synthesize_fallbacks c ctx text config (primary c # pre) w
              = ((None, Some Tts_ErrNoAvailableProvider), w1, calls1)"
    "map fst calls1 = resolving c (primary c # pre)"
    by blast
  from tts_primary_listed_again_core [OF reg fb this] show ?thesis .
qed

section \<open>The primary provider succeeds\<close>

text \<open>
  C1. When the primary name resolves in the registry and the primary provider's batch
  operation (\<open>Transcribe\<close> for stt, \<open>Synthesize\<close> for tts) returns a nil error on the
  request, the client returns that provider's result with a nil error, leaves the world as
  that one call left it, and has made exactly one invocation, of the primary: no fallback
  provider is invoked.
\<close>

theorem primary_success_no_fallback:
  "(providers c (primary c) = Some p \<and>
    stt_Transcribe p ctx audio config w = ((result, None), w1)
    \<longrightarrow> stt_Client_Transcribe c ctx audio config w
          = ((result, None), w1, [(primary c, None)])) \<and>
   (providers d (primary d) = Some q \<and>
    tts_Synthesize q ctx txt tconfig w = ((tresult, None), w1)
    \<longrightarrow> tts_Client_Synthesize d ctx txt tconfig w
          = ((tresult, None), w1, [(primary d, None)]))"
  by (simp add: stt_Client_Transcribe_def tts_Client_Synthesize_def)

theorem primary_success_no_fallback_witness:
  "providers (stt_NewClient [stt_stub ''a'' (Some ''hello'', None) None,
                             stt_stub ''b'' (Some ''other'', None) None])
     (primary (stt_NewClient [stt_stub ''a'' (Some ''hello'', None) None,
                              stt_stub ''b'' (Some ''other'', None) None]))
     = Some (stt_stub ''a'' (Some ''hello'', None) None) \<and>
   stt_Transcribe (stt_stub ''a'' (Some ''hello'', None) None) background [1, 2] () 0
     = ((Some ''hello'', None), 1) \<and>
   stt_Client_Transcribe (stt_NewClient [stt_stub ''a'' (Some ''hello'', None) None,
                                         stt_stub ''b'' (Some ''other'', None) None])
       background [1, 2] () 0
     = ((Some ''hello'', None), 1, [(''a'', None)]) \<and>
   providers (tts_NewClient [tts_stub ''a'' (Some ''wave'', None) (None, None),
                             tts_stub ''b'' (Some ''other'', None) (None, None)])
     (primary (tts_NewClient [tts_stub ''a'' (Some ''wave'', None) (None, None),
                              tts_stub ''b'' (Some ''other'', None) (None, None)]))
     = Some (tts_stub ''a'' (Some ''wave'', None) (None, None)) \<and>
   tts_Synthesize (tts_stub ''a'' (Some ''wave'', None) (None, None)) background ''hi'' () 0
     = ((Some ''wave'', None), 1) \<and>
   tts_Client_Synthesize (tts_NewClient [tts_stub ''a'' (Some ''wave'', None) (None, None),
                                         tts_stub ''b'' (Some ''other'', None) (None, None)])
       background ''hi'' () 0
     = ((Some ''wave'', None), 1, [(''a'', None)])"
proof -
  let ?A = "stt_stub ''a'' (Some ''hello'', None) None"
  let ?c = "stt_NewClient [?A, stt_stub ''b'' (Some ''other'', None) None]"
  let ?Q = "tts_stub ''a'' (Some ''wave'', None) (None, None)"
  let ?d = "tts_NewClient [?Q, tts_stub ''b'' (Some ''other'', None) (None, None)]"
  have h1: "providers ?c (primary ?c) = Some ?A"
    by (simp add: stt_NewClient_def stt_stub_def)
  have h2: "stt_Transcribe ?A background [1, 2] () 0 = ((Some ''hello'', None), 1)"
    by (simp add: stt_stub_def)
  have h3: "providers ?d (primary ?d) = Some ?Q"
    by (simp add: tts_NewClient_def tts_stub_def)
  have h4: "tts_Synthesize ?Q background ''hi'' () 0 = ((Some ''wave'', None), 1)"
    by (simp add: tts_stub_def)
  from primary_success_no_fallback
    [of ?c ?A background "[1, 2]" "()" 0 "Some ''hello''" 1 ?d ?Q "''hi''" "()" "Some ''wave''"]
    h1 h2 h3 h4
  show ?thesis by (simp add: stt_NewClient_def tts_NewClient_def stt_stub_def tts_stub_def)
qed

section \<open>Every attempt fails\<close>

text \<open>
  C2. When every candidate of the order \<open>[primary] ++ fallbacks\<close> that resolves in the
  registry fails when it is attempted (every invocation the call made returned a non-nil
  error), the batch operation returns nil with the no-available-provider error, and the
  invocations it made are exactly the resolving entries of \<open>primary # fallbacks\<close>, each
  once and in that order: primary first, then the fallbacks in list order. The same holds, in
  particular, when the providers of the resolving candidates fail on the request whatever the
  state of the world.
\<close>

theorem all_candidates_fail_in_order:
  "((\<forall>x \<in> set (snd (snd (stt_Client_Transcribe c ctx audio config w))). snd x \<noteq> None) \<longrightarrow>
      fst (stt_Client_Transcribe c ctx audio config w) = (None, Some Stt_ErrNoAvailableProvider) \<and>
      map fst (snd (snd (stt_Client_Transcribe c ctx audio config w)))
        = resolving c (primary c # fallbacks c)) \<and>
   ((\<forall>k q v. k \<in> set (primary c # fallbacks c) \<and> providers c k = Some q \<longrightarrow>
        snd (fst (stt_Transcribe q ctx audio config v)) \<noteq> None) \<longrightarrow>
      fst (stt_Client_Transcribe c ctx audio config w) = (None, Some Stt_ErrNoAvailableProvider) \<and>
      map fst (snd (snd (stt_Client_Transcribe c ctx audio config w)))
        = resolving c (primary c # fallbacks c)) \<and>
   ((\<forall>x \<in> set (snd (snd (tts_Client_Synthesize d ctx txt tconfig w))). snd x \<noteq> None) \<longrightarrow>
      fst (tts_Client_Synthesize d ctx txt tconfig w) = (None, Some Tts_ErrNoAvailableProvider) \<and>
      map fst (snd (snd (tts_Client_Synthesize d ctx txt tconfig w)))
        = resolving d (primary d # fallbacks d)) \<and>
   ((\<forall>k q v. k \<in> set (primary d # fallbacks d) \<and> providers d k = Some q \<longrightarrow>
        snd (fst (tts_Synthesize q ctx txt tconfig v)) \<noteq> None) \<longrightarrow>
      fst (tts_Client_Synthesize d ctx txt tconfig w) = (None, Some Tts_ErrNoAvailableProvider) \<and>
      map fst (snd (snd (tts_Client_Synthesize d ctx txt tconfig w)))
        = resolving d (primary d # fallbacks d))"
proof (intro conjI impI)
  assume "\<forall>x \<in> set (snd (snd (stt_Client_Transcribe c ctx audio config w))). snd x \<noteq> None"
  from stt_all_attempts_failed [OF this]
  show "fst (stt_Client_Transcribe c ctx audio config w) = (None, Some Stt_ErrNoAvailableProvider)"
    and "map fst (snd (snd (stt_Client_Transcribe c ctx audio config w)))
        = resolving c (primary c # fallbacks c)"
    by simp_all
next
  assume "\<forall>k q v. k \<in> set (primary c # fallbacks c) \<and> providers c k = Some q \<longrightarrow>
        snd (fst (stt_Transcribe q ctx audio config v)) \<noteq> None"
  from stt_fb_always_fail [OF this, of w] obtain w1 calls where
    "stt_Client_Transcribe_fallbacks c ctx audio config (primary c # fallbacks c) w
       = ((None, Some Stt_ErrNoAvailableProvider), w1, calls)"
    "map fst calls = resolving c (primary c # fallbacks c)"
    by blast
  then show "fst (stt_Client_Transcribe c ctx audio config w) = (None, Some Stt_ErrNoAvailableProvider)"
    and "map fst (snd (snd (stt_Client_Transcribe c ctx audio config w)))
        = resolving c (primary c # fallbacks c)"
    by (simp_all only: stt_Client_Transcribe_loop fst_conv snd_conv)
next
  assume "\<forall>x \<in> set (snd (snd (tts_Client_Synthesize d ctx txt tconfig w))). snd x \<noteq> None"
  from tts_all_attempts_failed [OF this]
  show "fst (tts_Client_Synthesize d ctx txt tconfig w) = (None, Some Tts_ErrNoAvailableProvider)"
    and "map fst (snd (snd (tts_Client_Synthesize d ctx txt tconfig w)))
        = resolving d (primary d # fallbacks d)"
    by simp_all
next
  assume "\<forall>k q v. k \<in> set (primary d # fallbacks d) \<and> providers d k = Some q \<longrightarrow>
        snd (fst (tts_Synthesize q ctx txt tconfig v)) \<noteq> None"
  from tts_fb_always_fail [OF this, of w] obtain w1 calls where
    "tts_Client_Synthesize_fallbacks d ctx txt tconfig (primary d # fallbacks d) w
       = ((None, Some Tts_ErrNoAvailableProvider), w1, calls)"
    "map fst calls = resolving d (primary d # fallbacks d)"
    by blast
  then show "fst (tts_Client_Synthesize d ctx txt tconfig w) = (None, Some Tts_ErrNoAvailableProvider)"
    and "map fst (snd (snd (tts_Client_Synthesize d ctx txt tconfig w)))
        = resolving d (primary d # fallbacks d)"
    by (simp_all only: tts_Client_Synthesize_loop fst_conv snd_conv)
qed

theorem all_candidates_fail_in_order_witness:
  "stt_Client_Transcribe
     (SetFallbacks (stt_NewClient [stt_stub ''a'' (None, Some Stt_ErrRateLimited) None,
                                   stt_stub ''b'' (None, Some Stt_ErrInvalidAudio) None])
        [''ghost'', ''b'', ''a''])
     background [7] () 0
     = ((None, Some Stt_ErrNoAvailableProvider), 3,
        [(''a'', Some Stt_ErrRateLimited), (''b'', Some Stt_ErrInvalidAudio),
         (''a'', Some Stt_ErrRateLimited)]) \<and>
   resolving
     (SetFallbacks (stt_NewClient [stt_stub ''a'' (None, Some Stt_ErrRateLimited) None,
                                   stt_stub ''b'' (None, Some Stt_ErrInvalidAudio) None])
        [''ghost'', ''b'', ''a''])
     [''a'', ''ghost'', ''b'', ''a''] = [''a'', ''b'', ''a''] \<and>
   tts_Client_Synthesize
     (tts_NewClient [tts_stub ''a'' (None, Some Tts_ErrRateLimited) (None, None),
                     tts_stub ''b'' (None, Some Tts_ErrQuotaExceeded) (None, None)])
     background ''hi'' () 0
     = ((None, Some Tts_ErrNoAvailableProvider), 2,
        [(''a'', Some Tts_ErrRateLimited), (''b'', Some Tts_ErrQuotaExceeded)])"
proof -
  let ?c = "SetFallbacks (stt_NewClient [stt_stub ''a'' (None, Some Stt_ErrRateLimited) None,
                                   stt_stub ''b'' (None, Some Stt_ErrInvalidAudio) None])
        [''ghost'', ''b'', ''a'']"
  let ?d = "tts_NewClient [tts_stub ''a'' (None, Some Tts_ErrRateLimited) (None, None),
                     tts_stub ''b'' (None, Some Tts_ErrQuotaExceeded) (None, None)]"
  have calls_c: "snd (snd (stt_Client_Transcribe ?c background [7] () 0))
      = [(''a'', Some Stt_ErrRateLimited), (''b'', Some Stt_ErrInvalidAudio),
         (''a'', Some Stt_ErrRateLimited)]"
    by (simp add: stub_defs)
  have world_c: "fst (snd (stt_Client_Transcribe ?c background [7] () 0)) = 3"
    by (simp add: stub_defs)
  have calls_d: "snd (snd (tts_Client_Synthesize ?d background ''hi'' () 0))
      = [(''a'', Some Tts_ErrRateLimited), (''b'', Some Tts_ErrQuotaExceeded)]"
    by (simp add: stub_defs)
  have world_d: "fst (snd (tts_Client_Synthesize ?d background ''hi'' () 0)) = 2"
    by (simp add: stub_defs)
  have res_c: "resolving ?c [''a'', ''ghost'', ''b'', ''a''] = [''a'', ''b'', ''a'']"
    by (simp add: stub_defs)
  have h_c: "\<forall>x \<in> set (snd (snd (stt_Client_Transcribe ?c background [7] () 0))). snd x \<noteq> None"
    by (simp add: calls_c)
  have h_d: "\<forall>x \<in> set (snd (snd (tts_Client_Synthesize ?d background ''hi'' () 0))). snd x \<noteq> None"
    by (simp add: calls_d)
  from all_candidates_fail_in_order [of ?c background "[7]" "()" 0 ?d "''hi''" "()"] h_c h_d
  have "fst (stt_Client_Transcribe ?c background [7] () 0) = (None, Some Stt_ErrNoAvailableProvider)"
    and "fst (tts_Client_Synthesize ?d background ''hi'' () 0) = (None, Some Tts_ErrNoAvailableProvider)"
    by blast+
  with calls_c world_c calls_d world_d res_c show ?thesis
    by (simp add: prod_eq_iff)
qed

section \<open>Streaming without a capable provider\<close>

text \<open>
  C3, as the code has it. For stt, when no candidate of \<open>[primary] ++ fallbacks\<close> that
  resolves satisfies \<open>StreamingProvider\<close>, \<open>TranscribeStream\<close> fails with the
  streaming-not-supported error, invokes no provider and leaves the world unchanged. For tts,
  \<open>SynthesizeStream\<close> makes no capability check: whether the registered providers satisfy
  \<open>StreamingProvider\<close> (have \<open>SynthesizeFromReader\<close>) or not changes nothing in the
  call. It invokes the resolving candidates of \<open>[primary] ++ fallbacks\<close> in order, each
  invocation but the last having failed; either the last invocation returned a nil error and
  its stream is returned, or every resolving candidate was invoked and failed and the error
  is no-available-provider, the only error the client returns.
\<close>

theorem stream_without_capable_provider:
  "((\<forall>k p. k \<in> set (primary c # fallbacks c) \<and> providers c k = Some p \<longrightarrow>
        stt_TranscribeStream p = None) \<longrightarrow>
      stt_Client_TranscribeStream c ctx config w
        = ((None, None, Some Stt_ErrStreamingNotSupported), w, [])) \<and>
   tts_Client_SynthesizeStream
       (d\<lparr>providers :=
            (\<lambda>k. map_option (\<lambda>p. p\<lparr>tts_SynthesizeFromReader := cap k\<rparr>) (providers d k))\<rparr>)
       ctx txt tconfig w
     = tts_Client_SynthesizeStream d ctx txt tconfig w \<and>
   (\<exists>rest. resolving d (primary d # fallbacks d)
        = map fst (snd (snd (tts_Client_SynthesizeStream d ctx txt tconfig w))) @ rest) \<and>
   (\<forall>x \<in> set (butlast (snd (snd (tts_Client_SynthesizeStream d ctx txt tconfig w)))).
        snd x \<noteq> None) \<and>
   ((fst (tts_Client_SynthesizeStream d ctx txt tconfig w) = (None, Some Tts_ErrNoAvailableProvider) \<and>
     (\<forall>x \<in> set (snd (snd (tts_Client_SynthesizeStream d ctx txt tconfig w))). snd x \<noteq> None) \<and>
     map fst (snd (snd (tts_Client_SynthesizeStream d ctx txt tconfig w)))
       = resolving d (primary d # fallbacks d)) \<or>
    (\<exists>k p w0 s. snd (snd (tts_Client_SynthesizeStream d ctx txt tconfig w)) \<noteq> [] \<and>
       last (snd (snd (tts_Client_SynthesizeStream d ctx txt tconfig w))) = (k, None) \<and>
       providers d k = Some p \<and>
       tts_SynthesizeStream p ctx txt tconfig w0
         = ((s, None), fst (snd (tts_Client_SynthesizeStream d ctx txt tconfig w))) \<and>
       fst (tts_Client_SynthesizeStream d ctx txt tconfig w) = (s, None)))"
proof -
  have stt: "(\<forall>k p. k \<in> set (primary c # fallbacks c) \<and> providers c k = Some p \<longrightarrow>
        stt_TranscribeStream p = None) \<longrightarrow>
      stt_Client_TranscribeStream c ctx config w
        = ((None, None, Some Stt_ErrStreamingNotSupported), w, [])"
    using stt_stream_fb_none_capable [of "primary c # fallbacks c" c ctx config w]
    by (simp only: stt_Client_TranscribeStream_loop) blast
  let ?d' = "d\<lparr>providers :=
            (\<lambda>k. map_option (\<lambda>p. p\<lparr>tts_SynthesizeFromReader := cap k\<rparr>) (providers d k))\<rparr>"
  have "\<forall>k. providers ?d' k
          = map_option (\<lambda>p. p\<lparr>tts_SynthesizeFromReader := cap k\<rparr>) (providers d k)"
    by simp
  from tts_stream_fb_capability [OF this, of ctx "txt" tconfig "primary d # fallbacks d" w]
  have capfree: "tts_Client_SynthesizeStream ?d' ctx txt tconfig w
      = tts_Client_SynthesizeStream d ctx txt tconfig w"
    by (simp add: tts_Client_SynthesizeStream_loop
          del: tts_Client_SynthesizeStream_fallbacks.simps)
  obtain out w' calls where
    run: "tts_Client_SynthesizeStream_fallbacks d ctx txt tconfig (primary d # fallbacks d) w
            = (out, w', calls)"
    by (metis prod.exhaust)
  then have R: "tts_Client_SynthesizeStream d ctx txt tconfig w = (out, w', calls)"
    by (simp only: tts_Client_SynthesizeStream_loop)
  have shape: "(\<exists>rest. resolving d (primary d # fallbacks d)
        = map fst (snd (snd (tts_Client_SynthesizeStream d ctx txt tconfig w))) @ rest) \<and>
   (\<forall>x \<in> set (butlast (snd (snd (tts_Client_SynthesizeStream d ctx txt tconfig w)))).
        snd x \<noteq> None) \<and>
   ((fst (tts_Client_SynthesizeStream d ctx txt tconfig w) = (None, Some Tts_ErrNoAvailableProvider) \<and>
     (\<forall>x \<in> set (snd (snd (tts_Client_SynthesizeStream d ctx txt tconfig w))). snd x \<noteq> None) \<and>
     map fst (snd (snd (tts_Client_SynthesizeStream d ctx txt tconfig w)))
       = resolving d (primary d # fallbacks d)) \<or>
    (\<exists>k p w0 s. snd (snd (tts_Client_SynthesizeStream d ctx txt tconfig w)) \<noteq> [] \<and>
       last (snd (snd (tts_Client_SynthesizeStream d ctx txt tconfig w))) = (k, None) \<and>
       providers d k = Some p \<and>
       tts_SynthesizeStream p ctx txt tconfig w0
         = ((s, None), fst (snd (tts_Client_SynthesizeStream d ctx txt tconfig w))) \<and>
       fst (tts_Client_SynthesizeStream d ctx txt tconfig w) = (s, None)))"
    unfolding R fst_conv snd_conv by (rule tts_stream_fb_run [OF run])
  from stt capfree shape show ?thesis by (intro conjI) blast+
qed

theorem stream_without_capable_provider_witness:
  "stt_TranscribeStream (stt_stub ''a'' (Some ''x'', None) None) = None \<and>
   stt_TranscribeStream (stt_stub ''b'' (Some ''y'', None) None) = None \<and>
   stt_Client_TranscribeStream
     (stt_NewClient [stt_stub ''a'' (Some ''x'', None) None,
                     stt_stub ''b'' (Some ''y'', None) None]) background () 5
     = ((None, None, Some Stt_ErrStreamingNotSupported), 5, [])"
proof -
  let ?c = "stt_NewClient [stt_stub ''a'' (Some ''x'', None) None,
                           stt_stub ''b'' (Some ''y'', None) None]"
  have h: "\<forall>k p. k \<in> set (primary ?c # fallbacks ?c) \<and> providers ?c k = Some p \<longrightarrow>
             stt_TranscribeStream p = None"
    by (auto simp: stt_NewClient_def stt_stub_def split: if_splits)
  from stream_without_capable_provider
    [of ?c background "()" 5 "\<lambda>k. None"
        "tts_NewClient [tts_stub ''a'' (None, None) (None, None)]" "''hi''" "()", THEN conjunct1] h
  have "stt_Client_TranscribeStream ?c background () 5
     = ((None, None, Some Stt_ErrStreamingNotSupported), 5, [])"
    by blast
  then show ?thesis by (simp add: stt_stub_def)
qed

text \<open>
  C3 as stated fails for tts: a provider that is not a \<open>StreamingProvider\<close> is
  invoked by \<open>SynthesizeStream\<close> and its stream is returned; and with no provider at all
  the error is no-available-provider, not streaming-not-supported.
\<close>

theorem tts_stream_ignores_capability_counterexample:
  "tts_SynthesizeFromReader (tts_stub ''a'' (Some ''wave'', None) (Some (), None)) = None \<and>
   tts_Client_SynthesizeStream
     (tts_NewClient [tts_stub ''a'' (Some ''wave'', None) (Some (), None)])
     background ''hi'' () 0
     = ((Some (), None), 1, [(''a'', None)]) \<and>
   tts_Client_SynthesizeStream (tts_NewClient []) background ''hi'' () 0
     = ((None, Some Tts_ErrNoAvailableProvider), 0, [])"
  by (simp add: stub_defs)

section \<open>Stream establishment errors\<close>

text \<open>
  C4. At the input below both registered stt providers are streaming providers; the
  primary's \<open>TranscribeStream\<close> fails and the fallback's would succeed.
  \<open>stt.Client.TranscribeStream\<close> returns the primary's error to the caller and never asks
  the fallback, while \<open>tts.Client.SynthesizeStream\<close>, on the same arrangement, goes on to
  the fallback and returns its stream.
\<close>

theorem stt_stream_establishment_error_returned:
  "stt_Client_TranscribeStream
     (stt_NewClient
        [stt_stub ''a'' (None, Some Stt_ErrRateLimited) (Some (None, None, Some (ProviderError ''boom''))),
         stt_stub ''b'' (Some ''y'', None) (Some (Some (), Some (), None))])
     background () 0
     = ((None, None, Some (ProviderError ''boom'')), 1, [(''a'', Some (ProviderError ''boom''))]) \<and>
   tts_Client_SynthesizeStream
     (tts_NewClient
        [tts_stub ''a'' (None, Some Tts_ErrRateLimited) (None, Some (ProviderError ''boom'')),
         tts_stub ''b'' (Some ''y'', None) (Some (), None)])
     background ''hi'' () 0
     = ((Some (), None), 2, [(''a'', Some (ProviderError ''boom'')), (''b'', None)])"
  by (simp add: stub_defs)

section \<open>Cancellation\<close>




section \<open>Unregistered fallback names\<close>

text \<open>
  C6, as the code has it. Fallback names that do not resolve in the registry are skipped
  without an error: a call behaves exactly as if they had been removed from the fallback list
  (same values, same world, same invocations). In particular, with fallbacks
  \<open>[ghost, real]\<close> where \<open>ghost\<close> is not registered, once the primary has brought no
  success (it does not resolve, or its call failed) the call reaches \<open>real\<close>, and when
  \<open>real\<close>'s provider succeeds its result is returned; the only invocations are the
  primary's (if it resolves) and \<open>real\<close>'s.
\<close>

theorem unregistered_fallbacks_skipped:
  "stt_Client_Transcribe (SetFallbacks c (resolving c (fallbacks c))) ctx audio config w
     = stt_Client_Transcribe c ctx audio config w \<and>
   (fallbacks c = [ghost, real] \<and> providers c ghost = None \<and> providers c real = Some p \<and>
    ((providers c (primary c) = None \<and> w0 = w) \<or>
     (\<exists>q r0 e. providers c (primary c) = Some q \<and>
        stt_Transcribe q ctx audio config w = ((r0, Some e), w0))) \<and>
    stt_Transcribe p ctx audio config w0 = ((r, None), w1) \<longrightarrow>
      fst (stt_Client_Transcribe c ctx audio config w) = (r, None) \<and>
      fst (snd (stt_Client_Transcribe c ctx audio config w)) = w1 \<and>
      map fst (snd (snd (stt_Client_Transcribe c ctx audio config w)))
        = resolving c [primary c] @ [real]) \<and>
   tts_Client_Synthesize (SetFallbacks d (resolving d (fallbacks d))) ctx txt tconfig w
     = tts_Client_Synthesize d ctx txt tconfig w \<and>
   (fallbacks d = [ghost, real] \<and> providers d ghost = None \<and> providers d real = Some p' \<and>
    ((providers d (primary d) = None \<and> w0 = w) \<or>
     (\<exists>q r0 e. providers d (primary d) = Some q \<and>
        tts_Synthesize q ctx txt tconfig w = ((r0, Some e), w0))) \<and>
    tts_Synthesize p' ctx txt tconfig w0 = ((r', None), w1) \<longrightarrow>
      fst (tts_Client_Synthesize d ctx txt tconfig w) = (r', None) \<and>
      fst (snd (tts_Client_Synthesize d ctx txt tconfig w)) = w1 \<and>
      map fst (snd (snd (tts_Client_Synthesize d ctx txt tconfig w)))
        = resolving d [primary d] @ [real])"
proof (intro conjI)
  have "stt_Client_Transcribe (SetFallbacks c (resolving c (fallbacks c))) ctx audio config w
      = stt_Client_Transcribe_fallbacks c ctx audio config
          (primary c # resolving c (fallbacks c)) w"
    by (simp add: stt_Client_Transcribe_loop SetFallbacks_def
          stt_fb_same_registry [of "c\<lparr>fallbacks := resolving c (fallbacks c)\<rparr>" c]
          del: stt_Client_Transcribe_fallbacks.simps)
  also have "\<dots> = stt_Client_Transcribe_fallbacks c ctx audio config (primary c # fallbacks c) w"
    by (simp add: stt_fb_skip split: option.splits prod.splits)
  finally show "stt_Client_Transcribe (SetFallbacks c (resolving c (fallbacks c))) ctx audio config w
     = stt_Client_Transcribe c ctx audio config w"
    by (simp only: stt_Client_Transcribe_loop)
next
  show "fallbacks c = [ghost, real] \<and> providers c ghost = None \<and> providers c real = Some p \<and>
    ((providers c (primary c) = None \<and> w0 = w) \<or>
     (\<exists>q r0 e. providers c (primary c) = Some q \<and>
        stt_Transcribe q ctx audio config w = ((r0, Some e), w0))) \<and>
    stt_Transcribe p ctx audio config w0 = ((r, None), w1) \<longrightarrow>
      fst (stt_Client_Transcribe c ctx audio config w) = (r, None) \<and>
      fst (snd (stt_Client_Transcribe c ctx audio config w)) = w1 \<and>
      map fst (snd (snd (stt_Client_Transcribe c ctx audio config w)))
        = resolving c [primary c] @ [real]"
    by (auto simp: stt_Client_Transcribe_def resolving_def)
next
  have "tts_Client_Synthesize (SetFallbacks d (resolving d (fallbacks d))) ctx txt tconfig w
      = tts_Client_Synthesize_fallbacks d ctx txt tconfig
          (primary d # resolving d (fallbacks d)) w"
    by (simp add: tts_Client_Synthesize_loop SetFallbacks_def
          tts_fb_same_registry [of "d\<lparr>fallbacks := resolving d (fallbacks d)\<rparr>" d]
          del: tts_Client_Synthesize_fallbacks.simps)
  also have "\<dots> = tts_Client_Synthesize_fallbacks d ctx txt tconfig (primary d # fallbacks d) w"
    by (simp add: tts_fb_skip split: option.splits prod.splits)
  finally show "tts_Client_Synthesize (SetFallbacks d (resolving d (fallbacks d))) ctx txt tconfig w
     = tts_Client_Synthesize d ctx txt tconfig w"
    by (simp only: tts_Client_Synthesize_loop)
next
  show "fallbacks d = [ghost, real] \<and> providers d ghost = None \<and> providers d real = Some p' \<and>
    ((providers d (primary d) = None \<and> w0 = w) \<or>
     (\<exists>q r0 e. providers d (primary d) = Some q \<and>
        tts_Synthesize q ctx txt tconfig w = ((r0, Some e), w0))) \<and>
    tts_Synthesize p' ctx txt tconfig w0 = ((r', None), w1) \<longrightarrow>
      fst (tts_Client_Synthesize d ctx txt tconfig w) = (r', None) \<and>
      fst (snd (tts_Client_Synthesize d ctx txt tconfig w)) = w1 \<and>
      map fst (snd (snd (tts_Client_Synthesize d ctx txt tconfig w)))
        = resolving d [primary d] @ [real]"
    by (auto simp: tts_Client_Synthesize_def resolving_def)
qed

theorem unregistered_fallbacks_skipped_witness:
  "fallbacks (SetFallbacks (stt_NewClient [stt_stub ''first'' (None, Some Stt_ErrRateLimited) None,
                                           stt_stub ''real'' (Some ''y'', None) None])
                [''ghost'', ''real'']) = [''ghost'', ''real''] \<and>
   providers (SetFallbacks (stt_NewClient [stt_stub ''first'' (None, Some Stt_ErrRateLimited) None,
                                           stt_stub ''real'' (Some ''y'', None) None])
                [''ghost'', ''real'']) ''ghost'' = None \<and>
   providers (SetFallbacks (stt_NewClient [stt_stub ''first'' (None, Some Stt_ErrRateLimited) None,
                                           stt_stub ''real'' (Some ''y'', None) None])
                [''ghost'', ''real'']) ''real''
     = Some (stt_stub ''real'' (Some ''y'', None) None) \<and>
   stt_Transcribe (stt_stub ''first'' (None, Some Stt_ErrRateLimited) None) background [7] () 0
     = ((None, Some Stt_ErrRateLimited), 1) \<and>
   stt_Transcribe (stt_stub ''real'' (Some ''y'', None) None) background [7] () 1
     = ((Some ''y'', None), 2) \<and>
   stt_Client_Transcribe
     (SetFallbacks (stt_NewClient [stt_stub ''first'' (None, Some Stt_ErrRateLimited) None,
                                   stt_stub ''real'' (Some ''y'', None) None])
        [''ghost'', ''real''])
     background [7] () 0
     = ((Some ''y'', None), 2, [(''first'', Some Stt_ErrRateLimited), (''real'', None)]) \<and>
   tts_Client_Synthesize
     (SetFallbacks (SetPrimary (tts_NewClient [tts_stub ''real'' (Some ''wave'', None) (None, None)])
                      ''nobody'')
        [''ghost'', ''real''])
     background ''hi'' () 0
     = ((Some ''wave'', None), 1, [(''real'', None)])"
proof -
  let ?P = "stt_stub ''first'' (None, Some Stt_ErrRateLimited) None"
  let ?R = "stt_stub ''real'' (Some ''y'', None) None"
  let ?c = "SetFallbacks (stt_NewClient [?P, ?R]) [''ghost'', ''real'']"
  let ?R' = "tts_stub ''real'' (Some ''wave'', None) (None, None)"
  let ?d = "SetFallbacks (SetPrimary (tts_NewClient [?R']) ''nobody'') [''ghost'', ''real'']"
  have c1: "fallbacks ?c = [''ghost'', ''real'']" and c2: "providers ?c ''ghost'' = None"
    and c3: "providers ?c ''real'' = Some ?R" and c4: "providers ?c (primary ?c) = Some ?P"
    and c5: "stt_Transcribe ?P background [7] () 0 = ((None, Some Stt_ErrRateLimited), 1)"
    and c6: "stt_Transcribe ?R background [7] () 1 = ((Some ''y'', None), 2)"
    and c7: "resolving ?c [primary ?c] @ [''real''] = [''first'', ''real'']"
    by (simp_all add: stub_defs)
  have d1: "fallbacks ?d = [''ghost'', ''real'']" and d2: "providers ?d ''ghost'' = None"
    and d3: "providers ?d ''real'' = Some ?R'" and d4: "providers ?d (primary ?d) = None"
    and d6: "tts_Synthesize ?R' background ''hi'' () 0 = ((Some ''wave'', None), 1)"
    and d7: "resolving ?d [primary ?d] @ [''real''] = [''real'']"
    by (simp_all add: stub_defs)
  have c45: "(providers ?c (primary ?c) = None \<and> 1 = (0::nat)) \<or>
     (\<exists>q r0 e. providers ?c (primary ?c) = Some q \<and>
        stt_Transcribe q background [7] () 0 = ((r0, Some e), 1))"
    using c4 c5 by blast
  have d45: "(providers ?d (primary ?d) = None \<and> (0::nat) = 0) \<or>
     (\<exists>q r0 e. providers ?d (primary ?d) = Some q \<and>
        tts_Synthesize q background ''hi'' () 0 = ((r0, Some e), 0))"
    using d4 by blast
  from unregistered_fallbacks_skipped
    [of ?c background "[7]" "()" 0 "''ghost''" "''real''" ?R 1 "Some ''y''" 2
        ?d "''hi''" "()" ?R' "Some ''wave''"]
    c1 c2 c3 c45 c6
  have stt: "fst (stt_Client_Transcribe ?c background [7] () 0) = (Some ''y'', None) \<and>
      fst (snd (stt_Client_Transcribe ?c background [7] () 0)) = 2 \<and>
      map fst (snd (snd (stt_Client_Transcribe ?c background [7] () 0)))
        = resolving ?c [primary ?c] @ [''real'']"
    by blast
  from unregistered_fallbacks_skipped
    [of ?c background "[7]" "()" 0 "''ghost''" "''real''" ?R 0 "Some ''y''" 1
        ?d "''hi''" "()" ?R' "Some ''wave''"]
    d1 d2 d3 d45 d6
  have tts: "fst (tts_Client_Synthesize ?d background ''hi'' () 0) = (Some ''wave'', None) \<and>
      fst (snd (tts_Client_Synthesize ?d background ''hi'' () 0)) = 1 \<and>
      map fst (snd (snd (tts_Client_Synthesize ?d background ''hi'' () 0)))
        = resolving ?d [primary ?d] @ [''real'']"
    by blast
  have e1: "snd (snd (stt_Client_Transcribe ?c background [7] () 0))
      = [(''first'', Some Stt_ErrRateLimited), (''real'', None)]"
    and e2: "snd (snd (tts_Client_Synthesize ?d background ''hi'' () 0)) = [(''real'', None)]"
    by (simp_all add: stub_defs)
  from stt tts e1 e2 c1 c2 c3 c5 c6 show ?thesis
    by (simp add: prod_eq_iff)
qed

text \<open>
  C6 as stated fails when the primary succeeds: the fallbacks are \<open>["ghost", "real"]\<close>,
  \<open>"ghost"\<close> is not registered and \<open>"real"\<close>'s provider succeeds, but the call
  returns the primary's result and \<open>"real"\<close> is never asked.
\<close>

theorem primary_success_before_real_counterexample:
  "fallbacks (SetFallbacks (stt_NewClient [stt_stub ''first'' (Some ''x'', None) None,
                                           stt_stub ''real'' (Some ''y'', None) None])
                [''ghost'', ''real'']) = [''ghost'', ''real''] \<and>
   providers (SetFallbacks (stt_NewClient [stt_stub ''first'' (Some ''x'', None) None,
                                           stt_stub ''real'' (Some ''y'', None) None])
                [''ghost'', ''real'']) ''ghost'' = None \<and>
   providers (SetFallbacks (stt_NewClient [stt_stub ''first'' (Some ''x'', None) None,
                                           stt_stub ''real'' (Some ''y'', None) None])
                [''ghost'', ''real'']) ''real''
     = Some (stt_stub ''real'' (Some ''y'', None) None) \<and>
   stt_Transcribe (stt_stub ''real'' (Some ''y'', None) None) background [7] () 0
     = ((Some ''y'', None), 1) \<and>
   stt_Client_Transcribe
     (SetFallbacks (stt_NewClient [stt_stub ''first'' (Some ''x'', None) None,
                                   stt_stub ''real'' (Some ''y'', None) None])
        [''ghost'', ''real''])
     background [7] () 0
     = ((Some ''x'', None), 1, [(''first'', None)])"
  by (simp add: stub_defs)

section \<open>What the batch operations can return\<close>

text \<open>
  C7. Whatever the providers do (any of them may fail with any error value), the batch
  operation returns either the result of a call in which a candidate provider returned a nil
  error, with a nil error, or nil with the package's no-available-provider error. No error
  value returned by a provider is ever the error of the batch operation.
\<close>

theorem batch_result_or_no_available_provider:
  "((\<exists>k p w0 r. k \<in> set (primary c # fallbacks c) \<and> providers c k = Some p \<and>
        stt_Transcribe p ctx audio config w0
          = ((r, None), fst (snd (stt_Client_Transcribe c ctx audio config w))) \<and>
        fst (stt_Client_Transcribe c ctx audio config w) = (r, None)) \<or>
    fst (stt_Client_Transcribe c ctx audio config w) = (None, Some Stt_ErrNoAvailableProvider)) \<and>
   ((\<exists>k p w0 r. k \<in> set (primary d # fallbacks d) \<and> providers d k = Some p \<and>
        tts_Synthesize p ctx txt tconfig w0
          = ((r, None), fst (snd (tts_Client_Synthesize d ctx txt tconfig w))) \<and>
        fst (tts_Client_Synthesize d ctx txt tconfig w) = (r, None)) \<or>
    fst (tts_Client_Synthesize d ctx txt tconfig w) = (None, Some Tts_ErrNoAvailableProvider))"
proof
  obtain out w' calls where
    run: "stt_Client_Transcribe_fallbacks c ctx audio config (primary c # fallbacks c) w
            = (out, w', calls)"
    by (metis prod.exhaust)
  from stt_fb_origin [OF run] run
  show "(\<exists>k p w0 r. k \<in> set (primary c # fallbacks c) \<and> providers c k = Some p \<and>
        stt_Transcribe p ctx audio config w0
          = ((r, None), fst (snd (stt_Client_Transcribe c ctx audio config w))) \<and>
        fst (stt_Client_Transcribe c ctx audio config w) = (r, None)) \<or>
    fst (stt_Client_Transcribe c ctx audio config w) = (None, Some Stt_ErrNoAvailableProvider)"
    by (simp only: stt_Client_Transcribe_loop fst_conv snd_conv)
next
  obtain out w' calls where
    run: "tts_Client_Synthesize_fallbacks d ctx txt tconfig (primary d # fallbacks d) w
            = (out, w', calls)"
    by (metis prod.exhaust)
  from tts_fb_origin [OF run] run
  show "(\<exists>k p w0 r. k \<in> set (primary d # fallbacks d) \<and> providers d k = Some p \<and>
        tts_Synthesize p ctx txt tconfig w0
          = ((r, None), fst (snd (tts_Client_Synthesize d ctx txt tconfig w))) \<and>
        fst (tts_Client_Synthesize d ctx txt tconfig w) = (r, None)) \<or>
    fst (tts_Client_Synthesize d ctx txt tconfig w) = (None, Some Tts_ErrNoAvailableProvider)"
    by (simp only: tts_Client_Synthesize_loop fst_conv snd_conv)
qed

section \<open>The primary invariant\<close>




section \<open>NewClient\<close>

text \<open>
  C9. \<open>NewClient(p1, ..., pn)\<close> with \<open>n \<ge> 1\<close> makes \<open>p1\<close>'s name the primary and the
  names of \<open>p2, ..., pn\<close>, in argument order, the fallbacks; the registry maps a name to the
  last argument reporting that name (a later registration overwrites an earlier one) and holds
  no other name.
\<close>

theorem NewClient_registers_in_order:
  "primary (stt_NewClient (p # ps)) = stt_Name p \<and>
   fallbacks (stt_NewClient (p # ps)) = map stt_Name ps \<and>
   providers (stt_NewClient (p # ps)) k =
     (case filter (\<lambda>x. stt_Name x = k) (p # ps) of [] \<Rightarrow> None | x # xs \<Rightarrow> Some (last (x # xs))) \<and>
   primary (tts_NewClient (q # qs)) = tts_Name q \<and>
   fallbacks (tts_NewClient (q # qs)) = map tts_Name qs \<and>
   providers (tts_NewClient (q # qs)) k =
     (case filter (\<lambda>x. tts_Name x = k) (q # qs) of [] \<Rightarrow> None | x # xs \<Rightarrow> Some (last (x # xs)))"
  unfolding stt_NewClient_def tts_NewClient_def
    stt_NewClient_loop_fields tts_NewClient_loop_fields
  by (simp split: list.splits)

section \<open>Candidates are not deduplicated\<close>

text \<open>
  C10, as the code has it. The candidate names are not deduplicated. When the primary name
  resolves and is also listed among the fallbacks, and the attempt of the primary and the
  attempts of the resolving fallbacks listed before that entry fail in the call (its first
  \<open>1 + n\<close> invocations fail, \<open>n\<close> being the number of resolving names before the
  entry), the call invokes the primary's provider at least twice: first as primary, then,
  after the resolving fallbacks listed before it, again at its place in the fallback list.
  The second invocation may succeed. The same holds, in particular, when those providers fail
  on the request whatever the state of the world.
\<close>

theorem primary_listed_as_fallback_invoked_again:
  "(providers c (primary c) = Some p \<and> fallbacks c = pre @ primary c # post \<and>
    (\<forall>x \<in> set (take (Suc (length (resolving c pre)))
              (snd (snd (stt_Client_Transcribe c ctx audio config w)))). snd x \<noteq> None) \<longrightarrow>
    (\<exists>e0 mid e1 rest.
        snd (snd (stt_Client_Transcribe c ctx audio config w))
          = (primary c, e0) # mid @ (primary c, e1) # rest \<and>
        map fst mid = resolving c pre)) \<and>
   (providers c (primary c) = Some p \<and> fallbacks c = pre @ primary c # post \<and>
    (\<forall>k q v. k \<in> set (primary c # pre) \<and> providers c k = Some q \<longrightarrow>
        snd (fst (stt_Transcribe q ctx audio config v)) \<noteq> None) \<longrightarrow>
    (\<exists>e0 mid e1 rest.
        snd (snd (stt_Client_Transcribe c ctx audio config w))
          = (primary c, e0) # mid @ (primary c, e1) # rest \<and>
        map fst mid = resolving c pre)) \<and>
   (providers d (primary d) = Some p' \<and> fallbacks d = pre' @ primary d # post' \<and>
    (\<forall>x \<in> set (take (Suc (length (resolving d pre')))
              (snd (snd (tts_Client_Synthesize d ctx txt tconfig w)))). snd x \<noteq> None) \<longrightarrow>
    (\<exists>e0 mid e1 rest.
        snd (snd (tts_Client_Synthesize d ctx txt tconfig w))
          = (primary d, e0) # mid @ (primary d, e1) # rest \<and>
        map fst mid = resolving d pre')) \<and>
   (providers d (primary d) = Some p' \<and> fallbacks d = pre' @ primary d # post' \<and>
    (\<forall>k q v. k \<in> set (primary d # pre') \<and> providers d k = Some q \<longrightarrow>
        snd (fst (tts_Synthesize q ctx txt tconfig v)) \<noteq> None) \<longrightarrow>
    (\<exists>e0 mid e1 rest.
        snd (snd (tts_Client_Synthesize d ctx txt tconfig w))
          = (primary d, e0) # mid @ (primary d, e1) # rest \<and>
        map fst mid = resolving d pre'))"
  using stt_primary_listed_again_run [of c p pre post ctx "audio" config w]
    stt_primary_listed_again_always [of c p pre post ctx "audio" config w]
    tts_primary_listed_again_run [of d p' pre' post' ctx "txt" tconfig w]
    tts_primary_listed_again_always [of d p' pre' post' ctx "txt" tconfig w]
  by blast

theorem primary_listed_as_fallback_invoked_again_witness:
  "stt_Client_Transcribe
     (SetFallbacks (stt_NewClient [stt_stub_fail_first ''a'' Stt_ErrRateLimited ''ok'']) [''a''])
     background [7] () 0
     = ((Some ''ok'', None), 2, [(''a'', Some Stt_ErrRateLimited), (''a'', None)]) \<and>
   (\<exists>e0 mid e1 rest.
      snd (snd (stt_Client_Transcribe
        (SetFallbacks (stt_NewClient [stt_stub_fail_first ''a'' Stt_ErrRateLimited ''ok'']) [''a''])
        background [7] () 0))
        = (''a'', e0) # mid @ (''a'', e1) # rest \<and> map fst mid = []) \<and>
   (\<exists>e0 mid e1 rest.
      snd (snd (tts_Client_Synthesize
        (SetFallbacks (tts_NewClient [tts_stub ''a'' (None, Some Tts_ErrRateLimited) (None, None),
                                      tts_stub ''b'' (None, Some Tts_ErrQuotaExceeded) (None, None)])
           [''b'', ''a''])
        background ''hi'' () 0))
        = (''a'', e0) # mid @ (''a'', e1) # rest \<and> map fst mid = [''b''])"
proof -
  let ?A = "stt_stub_fail_first ''a'' Stt_ErrRateLimited ''ok''"
  let ?c = "SetFallbacks (stt_NewClient [?A]) [''a'']"
  let ?Q = "tts_stub ''a'' (None, Some Tts_ErrRateLimited) (None, None)"
  let ?d = "SetFallbacks (tts_NewClient [?Q, tts_stub ''b'' (None, Some Tts_ErrQuotaExceeded) (None, None)])
              [''b'', ''a'']"
  have pc: "primary ?c = ''a''" and pd: "primary ?d = ''a''"
    by (simp_all add: stub_defs)
  have rc: "resolving ?c [] = []" and rd: "resolving ?d [''b''] = [''b'']"
    by (simp_all add: stub_defs)
  have run: "stt_Client_Transcribe ?c background [7] () 0
     = ((Some ''ok'', None), 2, [(''a'', Some Stt_ErrRateLimited), (''a'', None)])"
    by (simp add: stub_defs)
  have h1: "providers ?c (primary ?c) = Some ?A"
    by (simp add: stub_defs)
  have h2: "fallbacks ?c = [] @ primary ?c # []"
    by (simp add: stub_defs)
  have h3: "\<forall>x \<in> set (take (Suc (length (resolving ?c [])))
              (snd (snd (stt_Client_Transcribe ?c background [7] () 0)))). snd x \<noteq> None"
    by (simp add: run rc)
  have h4: "providers ?d (primary ?d) = Some ?Q"
    by (simp add: stub_defs)
  have h5: "fallbacks ?d = [''b''] @ primary ?d # []"
    by (simp add: stub_defs)
  have h6: "\<forall>k q v. k \<in> set (primary ?d # [''b'']) \<and> providers ?d k = Some q \<longrightarrow>
        snd (fst (tts_Synthesize q background ''hi'' () v)) \<noteq> None"
    by (auto simp: stub_defs split: if_splits)
  note inst = primary_listed_as_fallback_invoked_again
    [of ?c ?A "[]" "[]" background "[7]" "()" 0 ?d ?Q "[''b'']" "[]" "''hi''" "()"]
  from inst [THEN conjunct1] h1 h2 h3
  have stt: "\<exists>e0 mid e1 rest.
        snd (snd (stt_Client_Transcribe ?c background [7] () 0))
          = (primary ?c, e0) # mid @ (primary ?c, e1) # rest \<and>
        map fst mid = resolving ?c []"
    by blast
  from inst [THEN conjunct2, THEN conjunct2, THEN conjunct2] h4 h5 h6
  have tts: "\<exists>e0 mid e1 rest.
        snd (snd (tts_Client_Synthesize ?d background ''hi'' () 0))
          = (primary ?d, e0) # mid @ (primary ?d, e1) # rest \<and>
        map fst mid = resolving ?d [''b'']"
    by blast
  from run stt tts show ?thesis
    unfolding pc pd rc rd by blast
qed

text \<open>
  C10 as stated fails: the primary \<open>"a"\<close> is listed among the fallbacks and fails,
  but the fallback \<open>"b"\<close> listed before it succeeds, so \<open>"a"\<close> is invoked once only.
\<close>

theorem primary_listed_after_success_counterexample:
  "primary (SetFallbacks (stt_NewClient [stt_stub ''a'' (None, Some Stt_ErrRateLimited) None,
                                          stt_stub ''b'' (Some ''y'', None) None])
              [''b'', ''a'']) = ''a'' \<and>
   ''a'' \<in> set (fallbacks (SetFallbacks (stt_NewClient [stt_stub ''a'' (None, Some Stt_ErrRateLimited) None,
                                          stt_stub ''b'' (Some ''y'', None) None])
              [''b'', ''a''])) \<and>
   stt_Client_Transcribe
     (SetFallbacks (stt_NewClient [stt_stub ''a'' (None, Some Stt_ErrRateLimited) None,
                                   stt_stub ''b'' (Some ''y'', None) None])
        [''b'', ''a''])
     background [7] () 0
     = ((Some ''y'', None), 2, [(''a'', Some Stt_ErrRateLimited), (''b'', None)]) \<and>
   tts_Client_Synthesize
     (SetFallbacks (tts_NewClient [tts_stub ''a'' (None, Some Tts_ErrRateLimited) (None, None),
                                   tts_stub ''b'' (Some ''y'', None) (None, None)])
        [''b'', ''a''])
     background ''hi'' () 0
     = ((Some ''y'', None), 2, [(''a'', Some Tts_ErrRateLimited), (''b'', None)])"
  by (simp add: stub_defs)

end
